theory Spec2Isabelle
  imports Complex_Main
begin

section \<open>Python values\<close>

text \<open>
  The two services of the repository (\<^verbatim>\<open>app/services/analyzer.py\<close> and
  \<^verbatim>\<open>app/services/jd_matcher.py\<close>) work on what \<^verbatim>\<open>json.loads\<close> returns and on
  dictionaries they build themselves. Both are modelled by one datatype of Python values.
  A text is a \<^typ>\<open>string\<close>: one \<^typ>\<open>char\<close> stands for one code point, so the
  model covers the texts whose code points are below 256, and \<^const>\<open>length\<close> is Python's
  \<^verbatim>\<open>len\<close>.

  A \<^verbatim>\<open>float\<close> is either finite (its exact value is a rational; minus zero is kept
  apart because \<^verbatim>\<open>repr\<close> tells it from zero) or one of the three special values that
  \<^verbatim>\<open>json.loads\<close> accepts as \<^verbatim>\<open>NaN\<close>, \<^verbatim>\<open>Infinity\<close> and \<^verbatim>\<open>-Infinity\<close>.

  A \<^verbatim>\<open>dict\<close> keeps insertion order, so it is an association list with distinct keys;
  every key that occurs in the two services is a string.
\<close>

datatype pyfloat = Finite rat | NegZero | PosInf | NegInf | NaN

datatype pyval =
    PNone
  | PBool bool
  | PInt int
  | PFloat pyfloat
  | PStr string
  | PList "pyval list"
  | PDict "(string \<times> pyval) list"

type_synonym pydict = "(string \<times> pyval) list"

text \<open>\<^verbatim>\<open>d.get(k)\<close> and \<^verbatim>\<open>k in d\<close>.\<close>

definition dict_get :: "pydict \<Rightarrow> string \<Rightarrow> pyval option" where
  "dict_get d k = map_of d k"

definition dict_has :: "pydict \<Rightarrow> string \<Rightarrow> bool" where
  "dict_has d k = (dict_get d k \<noteq> None)"

text \<open>\<^verbatim>\<open>d[k] = v\<close>: an existing key keeps its position, a new key goes to the end.\<close>

fun dict_set :: "pydict \<Rightarrow> string \<Rightarrow> pyval \<Rightarrow> pydict" where
  "dict_set [] k v = [(k, v)]"
| "dict_set ((k', v') # d) k v =
     (if k' = k then (k, v) # d else (k', v') # dict_set d k v)"

definition dict_keys :: "pydict \<Rightarrow> string list" where
  "dict_keys d = map fst d"

subsection \<open>Exceptions\<close>

text \<open>
  An exception is its class and its message; \<^verbatim>\<open>str(e)\<close> is the message.
  \<^verbatim>\<open>ProviderError\<close> stands for whatever the client library of the language model
  raises. \<^verbatim>\<open>json.JSONDecodeError\<close> is not listed: both services catch it where it is
  raised and never look at its message, so the JSON reader returns an option. The same
  holds for the \<^verbatim>\<open>TypeError\<close> that the strict parse of \<^verbatim>\<open>analyze_resume\<close> can raise.
\<close>

datatype exn =
    NameError string
  | AttributeError string
  | ValueError string
  | OverflowError string
  | ProviderError string

fun str_exn :: "exn \<Rightarrow> string" where
  "str_exn (NameError m) = m"
| "str_exn (AttributeError m) = m"
| "str_exn (ValueError m) = m"
| "str_exn (OverflowError m) = m"
| "str_exn (ProviderError m) = m"

subsection \<open>Library functions taken as parameters\<close>

text \<open>
  Two functions of the Python runtime are not modelled but passed in: the conversion of a
  decimal literal to a \<^verbatim>\<open>float\<close> (the \<^verbatim>\<open>parse_float\<close> hook of \<^verbatim>\<open>json.loads\<close>, by
  default the built-in \<^verbatim>\<open>float\<close>), and \<^verbatim>\<open>repr\<close>. The general theorems below hold
  for all such functions; the examples fix an instance.
\<close>

record pylib =
  parse_float :: "string \<Rightarrow> pyfloat"
  repr :: "pyval \<Rightarrow> string"

text \<open>\<^verbatim>\<open>str(v)\<close>: a string is itself, every other value is its \<^verbatim>\<open>repr\<close>.\<close>

definition py_str :: "pylib \<Rightarrow> pyval \<Rightarrow> string" where
  "py_str L v = (case v of PStr s \<Rightarrow> s | _ \<Rightarrow> repr L v)"

text \<open>
  \<^verbatim>\<open>int(x)\<close> for a float truncates towards zero, raises \<^verbatim>\<open>ValueError\<close> for NaN and
  \<^verbatim>\<open>OverflowError\<close> for an infinity.
\<close>

definition trunc_rat :: "rat \<Rightarrow> int" where
  "trunc_rat q = (if 0 \<le> q then \<lfloor>q\<rfloor> else \<lceil>q\<rceil>)"

fun int_of_float :: "pyfloat \<Rightarrow> exn + int" where
  "int_of_float (Finite q) = Inr (trunc_rat q)"
| "int_of_float NegZero = Inr 0"
| "int_of_float NaN = Inl (ValueError ''cannot convert float NaN to integer'')"
| "int_of_float PosInf = Inl (OverflowError ''cannot convert float infinity to integer'')"
| "int_of_float NegInf = Inl (OverflowError ''cannot convert float infinity to integer'')"

text \<open>
  \<^verbatim>\<open>isinstance(v, (int, float))\<close> holds for integers, floats and, \<^verbatim>\<open>bool\<close> being a
  subclass of \<^verbatim>\<open>int\<close>, for the two truth values. \<open>py_int\<close> is \<^verbatim>\<open>int(v)\<close> on these.
\<close>

datatype number = NInt int | NBool bool | NFloat pyfloat

fun as_number :: "pyval \<Rightarrow> number option" where
  "as_number (PInt n) = Some (NInt n)"
| "as_number (PBool b) = Some (NBool b)"
| "as_number (PFloat f) = Some (NFloat f)"
| "as_number _ = None"

fun py_int :: "number \<Rightarrow> exn + int" where
  "py_int (NInt n) = Inr n"
| "py_int (NBool b) = Inr (if b then 1 else 0)"
| "py_int (NFloat f) = int_of_float f"

section \<open>String operations\<close>

text \<open>
  \<^verbatim>\<open>str.isspace\<close> on the code points below 256; the class \<^verbatim>\<open>\s\<close> of the module
  \<^verbatim>\<open>re\<close> on a \<^verbatim>\<open>str\<close> pattern is the same set.
\<close>

definition is_space :: "char \<Rightarrow> bool" where
  "is_space c = ((of_char c :: nat) \<in> {9, 10, 11, 12, 13, 28, 29, 30, 31, 32, 133, 160})"

definition is_digit :: "char \<Rightarrow> bool" where
  "is_digit c = (48 \<le> (of_char c :: nat) \<and> (of_char c :: nat) \<le> 57)"

text \<open>
  \<^verbatim>\<open>\w\<close>: letters, digits, numeric characters and the underscore, for the code points
  below 256.
\<close>

definition is_word :: "char \<Rightarrow> bool" where
  "is_word c = (let n = (of_char c :: nat) in
     (48 \<le> n \<and> n \<le> 57) \<or> (65 \<le> n \<and> n \<le> 90) \<or> n = 95 \<or> (97 \<le> n \<and> n \<le> 122)
     \<or> n \<in> {170, 178, 179, 181, 185, 186, 188, 189, 190}
     \<or> (192 \<le> n \<and> n \<le> 214) \<or> (216 \<le> n \<and> n \<le> 246) \<or> 248 \<le> n)"

text \<open>\<^verbatim>\<open>str.lower\<close>, character by character below 256.\<close>

definition lower_char :: "char \<Rightarrow> char" where
  "lower_char c = (let n = (of_char c :: nat) in
     if (65 \<le> n \<and> n \<le> 90) \<or> (192 \<le> n \<and> n \<le> 222 \<and> n \<noteq> 215)
     then char_of (n + 32) else c)"

definition lower :: "string \<Rightarrow> string" where
  "lower s = map lower_char s"

definition strip :: "string \<Rightarrow> string" where
  "strip s = rev (dropWhile is_space (rev (dropWhile is_space s)))"

text \<open>\<^verbatim>\<open>s.lstrip(chars)\<close>.\<close>

definition lstrip_chars :: "string \<Rightarrow> string \<Rightarrow> string" where
  "lstrip_chars chars s = dropWhile (\<lambda>c. c \<in> set chars) s"

definition startswith :: "string \<Rightarrow> string \<Rightarrow> bool" where
  "startswith s p = (take (length p) s = p)"

definition endswith :: "string \<Rightarrow> string \<Rightarrow> bool" where
  "endswith s p = (length p \<le> length s \<and> drop (length s - length p) s = p)"

text \<open>\<^verbatim>\<open>sub in s\<close>.\<close>

primrec contains :: "string \<Rightarrow> string \<Rightarrow> bool" where
  "contains [] sub = (sub = [])"
| "contains (c # cs) sub = (startswith (c # cs) sub \<or> contains cs sub)"

text \<open>
  \<^verbatim>\<open>s.find(c)\<close> and \<^verbatim>\<open>s.rfind(c)\<close> for a single character; \<open>None\<close> is Python's
  \<open>-1\<close>.
\<close>

primrec find_char :: "string \<Rightarrow> char \<Rightarrow> nat option" where
  "find_char [] c = None"
| "find_char (x # xs) c =
     (if x = c then Some 0 else map_option Suc (find_char xs c))"

definition rfind_char :: "string \<Rightarrow> char \<Rightarrow> nat option" where
  "rfind_char s c =
     (case find_char (rev s) c of None \<Rightarrow> None | Some i \<Rightarrow> Some (length s - 1 - i))"

text \<open>The slice \<^verbatim>\<open>s[i:j]\<close> for indices that are not negative.\<close>

definition slice :: "string \<Rightarrow> nat \<Rightarrow> nat \<Rightarrow> string" where
  "slice s i j = take (j - i) (drop i s)"

text \<open>
  \<^verbatim>\<open>s.split("\n")\<close> and \<^verbatim>\<open>s.split("\n\n")\<close>; the second argument collects the
  characters of the current piece in reverse.
\<close>

fun split_lines :: "string \<Rightarrow> string \<Rightarrow> string list" where
  "split_lines [] acc = [rev acc]"
| "split_lines (c # cs) acc =
     (if c = CHR 0x0A then rev acc # split_lines cs [] else split_lines cs (c # acc))"

fun split_paragraphs :: "string \<Rightarrow> string \<Rightarrow> string list" where
  "split_paragraphs [] acc = [rev acc]"
| "split_paragraphs [c] acc = [rev (c # acc)]"
| "split_paragraphs (c # d # cs) acc =
     (if c = CHR 0x0A \<and> d = CHR 0x0A then rev acc # split_paragraphs cs []
      else split_paragraphs (d # cs) (c # acc))"

text \<open>\<^verbatim>\<open>int(s)\<close> for a string of ASCII digits.\<close>

definition digit_val :: "char \<Rightarrow> int" where
  "digit_val c = int (of_char c) - 48"

definition int_of_digits :: "string \<Rightarrow> int" where
  "int_of_digits s = foldl (\<lambda>n c. 10 * n + digit_val c) 0 s"

section \<open>Regular expressions\<close>

text \<open>
  The patterns of the two services, as the backtracking matcher of the module \<^verbatim>\<open>re\<close>
  runs them. A pattern has at most one capture group. \<open>match r s cap\<close> lists, in the
  order in which backtracking tries them, the ways \<open>r\<close> matches a prefix of \<open>s\<close>: each
  is the rest of \<open>s\<close> behind the match with the text captured so far. A repetition
  gives up an iteration that consumes nothing, which also makes the recursion end.
\<close>

datatype regex =
    Eps
  | Lit char
  | Class "char \<Rightarrow> bool"
  | Seq regex regex
  | Alt regex regex
  | Star regex
  | Lazy regex
  | Group regex
  | Ahead regex
  | Eos

function match :: "regex \<Rightarrow> string \<Rightarrow> string option \<Rightarrow> (string \<times> string option) list" where
  "match Eps s cap = [(s, cap)]"
| "match (Lit c) s cap = (case s of [] \<Rightarrow> [] | x # xs \<Rightarrow> if x = c then [(xs, cap)] else [])"
| "match (Class p) s cap = (case s of [] \<Rightarrow> [] | x # xs \<Rightarrow> if p x then [(xs, cap)] else [])"
| "match (Seq a b) s cap = concat (map (\<lambda>m. match b (fst m) (snd m)) (match a s cap))"
| "match (Alt a b) s cap = match a s cap @ match b s cap"
| "match (Star r) s cap =
     concat (map (\<lambda>m. if length (fst m) < length s then match (Star r) (fst m) (snd m) else [])
                 (match r s cap))
     @ [(s, cap)]"
| "match (Lazy r) s cap =
     (s, cap) #
     concat (map (\<lambda>m. if length (fst m) < length s then match (Lazy r) (fst m) (snd m) else [])
                 (match r s cap))"
| "match (Group r) s cap =
     map (\<lambda>m. (fst m, Some (take (length s - length (fst m)) s))) (match r s cap)"
| "match (Ahead r) s cap = (case match r s cap of [] \<Rightarrow> [] | m # _ \<Rightarrow> [(s, snd m)])"
| "match Eos s cap = (if s = [] \<or> s = [CHR 0x0A] then [(s, cap)] else [])"
  by pat_completeness auto
termination
  by (relation "measures [\<lambda>(r, s, cap). size r, \<lambda>(r, s, cap). length s]") auto

text \<open>Pattern syntax: a literal text, \<^verbatim>\<open>r+\<close>, \<^verbatim>\<open>r+?\<close>, \<^verbatim>\<open>r?\<close>, and a literal text
  under \<^verbatim>\<open>re.IGNORECASE\<close>.\<close>

fun lit :: "string \<Rightarrow> regex" where
  "lit [] = Eps"
| "lit (c # cs) = Seq (Lit c) (lit cs)"

fun lit_ic :: "string \<Rightarrow> regex" where
  "lit_ic [] = Eps"
| "lit_ic (c # cs) = Seq (Class (\<lambda>x. lower_char x = lower_char c)) (lit_ic cs)"

definition OneOrMore :: "regex \<Rightarrow> regex" where
  "OneOrMore r = Seq r (Star r)"

definition LazyOneOrMore :: "regex \<Rightarrow> regex" where
  "LazyOneOrMore r = Seq r (Lazy r)"

definition Optional :: "regex \<Rightarrow> regex" where
  "Optional r = Alt r Eps"

fun seqs :: "regex list \<Rightarrow> regex" where
  "seqs [] = Eps"
| "seqs [r] = r"
| "seqs (r # rs) = Seq r (seqs rs)"

text \<open>
  \<^verbatim>\<open>re.search\<close>: the first way to match at the leftmost position that has one. The
  result is the rest of the text behind the match and the text of group 1.
\<close>

fun re_search :: "regex \<Rightarrow> string \<Rightarrow> (string \<times> string option) option" where
  "re_search r [] = (case match r [] None of [] \<Rightarrow> None | m # _ \<Rightarrow> Some m)"
| "re_search r (c # cs) =
     (case match r (c # cs) None of [] \<Rightarrow> re_search r cs | m # _ \<Rightarrow> Some m)"

text \<open>
  \<^verbatim>\<open>re.findall\<close> for a pattern with one group: the texts of the group in the successive
  matches, each search starting where the last match ended, or one character further
  when that match has consumed nothing from the start of its search. Every match of the
  patterns below consumes a character.
\<close>

function re_findall :: "regex \<Rightarrow> string \<Rightarrow> string list" where
  "re_findall r s =
     (case re_search r s of
        None \<Rightarrow> []
      | Some (rest, cap) \<Rightarrow>
          (case cap of None \<Rightarrow> [] | Some g \<Rightarrow> [g])
          @ (if length rest < length s then re_findall r rest
             else (case s of [] \<Rightarrow> [] | _ # t \<Rightarrow> re_findall r t)))"
  by pat_completeness auto
termination
  by (relation "measure (\<lambda>(r, s). length s)") auto

section \<open>\<^verbatim>\<open>json.loads\<close>\<close>

text \<open>
  The decoder of the module \<^verbatim>\<open>json\<close> with its default settings: the JSON grammar,
  the three extra literals \<^verbatim>\<open>NaN\<close>, \<^verbatim>\<open>Infinity\<close> and \<^verbatim>\<open>-Infinity\<close>, no control
  character inside a string, and for a repeated key the last value at the place of the
  first. \<open>None\<close> stands for \<^verbatim>\<open>json.JSONDecodeError\<close>. An escape \<^verbatim>\<open>\uXXXX\<close> for a code
  point of 256 or more denotes a character outside the model and is answered by
  \<open>None\<close> as well. The limits of the interpreter (the depth of recursion, the
  number of digits of an integer) are not part of the model.
\<close>

definition json_ws :: "char \<Rightarrow> bool" where
  "json_ws c = (c = CHR '' '' \<or> c = CHR 0x09 \<or> c = CHR 0x0A \<or> c = CHR 0x0D)"

definition skip_ws :: "string \<Rightarrow> string" where
  "skip_ws s = dropWhile json_ws s"

definition hex_val :: "char \<Rightarrow> nat option" where
  "hex_val c = (let n = (of_char c :: nat) in
     if 48 \<le> n \<and> n \<le> 57 then Some (n - 48)
     else if 65 \<le> n \<and> n \<le> 70 then Some (n - 55)
     else if 97 \<le> n \<and> n \<le> 102 then Some (n - 87)
     else None)"

definition hex4 :: "char \<Rightarrow> char \<Rightarrow> char \<Rightarrow> char \<Rightarrow> nat option" where
  "hex4 a b c d =
     (case (hex_val a, hex_val b, hex_val c, hex_val d) of
        (Some w, Some x, Some y, Some z) \<Rightarrow> Some (((w * 16 + x) * 16 + y) * 16 + z)
      | _ \<Rightarrow> None)"

definition backslash :: "char \<Rightarrow> char option" where
  "backslash e =
     (if e = CHR 0x22 then Some (CHR 0x22)
      else if e = CHR 0x5C then Some (CHR 0x5C)
      else if e = CHR ''/'' then Some (CHR ''/'')
      else if e = CHR ''b'' then Some (CHR 0x08)
      else if e = CHR ''f'' then Some (CHR 0x0C)
      else if e = CHR ''n'' then Some (CHR 0x0A)
      else if e = CHR ''r'' then Some (CHR 0x0D)
      else if e = CHR ''t'' then Some (CHR 0x09)
      else None)"

text \<open>
  The text of a string literal, read from behind its opening quote; the second argument
  collects the characters in reverse.
\<close>

fun scanstring :: "string \<Rightarrow> string \<Rightarrow> (string \<times> string) option" where
  "scanstring [] acc = None"
| "scanstring (c # cs) acc =
     (if c = CHR 0x22 then Some (rev acc, cs)
      else if c = CHR 0x5C then
        (case cs of
           [] \<Rightarrow> None
         | e # r \<Rightarrow>
             if e = CHR ''u'' then
               (case r of
                  h1 # h2 # h3 # h4 # r' \<Rightarrow>
                    (case hex4 h1 h2 h3 h4 of
                       None \<Rightarrow> None
                     | Some n \<Rightarrow> if n < 256 then scanstring r' (char_of n # acc) else None)
                | _ \<Rightarrow> None)
             else (case backslash e of None \<Rightarrow> None | Some x \<Rightarrow> scanstring r (x # acc)))
      else if (of_char c :: nat) < 32 then None
      else scanstring cs (c # acc))"

text \<open>
  A number: \<^verbatim>\<open>(-?(?:0|[1-9][0-9]*))(\.[0-9]+)?([eE][-+]?[0-9]+)?\<close>. With neither fraction
  nor exponent it is an \<^verbatim>\<open>int\<close>, otherwise the \<^verbatim>\<open>float\<close> of the matched text.
\<close>

definition scan_fraction :: "string \<Rightarrow> string \<times> string" where
  "scan_fraction s =
     (case s of
        c # d # r \<Rightarrow>
          if c = CHR ''.'' \<and> is_digit d
          then (c # takeWhile is_digit (d # r), dropWhile is_digit (d # r))
          else ([], s)
      | _ \<Rightarrow> ([], s))"

definition scan_exponent :: "string \<Rightarrow> string \<times> string" where
  "scan_exponent s =
     (case s of
        [] \<Rightarrow> ([], s)
      | e # r \<Rightarrow>
          if e = CHR ''e'' \<or> e = CHR ''E'' then
            (let sign = (case r of
                           [] \<Rightarrow> []
                         | x # _ \<Rightarrow> if x = CHR ''+'' \<or> x = CHR ''-'' then [x] else []);
                 r' = drop (length sign) r
             in if takeWhile is_digit r' = [] then ([], s)
                else (e # sign @ takeWhile is_digit r', dropWhile is_digit r'))
          else ([], s))"

definition scan_unsigned :: "pylib \<Rightarrow> string \<Rightarrow> string \<Rightarrow> (pyval \<times> string) option" where
  "scan_unsigned L sign r0 =
     (case r0 of
        [] \<Rightarrow> None
      | c # cs \<Rightarrow>
          if \<not> is_digit c then None
          else
            (let digits = (if c = CHR ''0'' then [c] else takeWhile is_digit r0);
                 r1 = drop (length digits) r0;
                 (frac, r2) = scan_fraction r1;
                 (ex, r3) = scan_exponent r2
             in if frac = [] \<and> ex = []
                then Some (PInt (if sign = [] then int_of_digits digits
                                 else - int_of_digits digits), r3)
                else Some (PFloat (parse_float L (sign @ digits @ frac @ ex)), r3)))"

definition scan_number :: "pylib \<Rightarrow> string \<Rightarrow> (pyval \<times> string) option" where
  "scan_number L s =
     (let sign = (case s of [] \<Rightarrow> [] | x # _ \<Rightarrow> if x = CHR ''-'' then [x] else [])
      in scan_unsigned L sign (drop (length sign) s))"

text \<open>
  \<open>scan_once\<close> reads one value at the head of the text. \<open>json_array\<close> reads the
  elements of an array from the first one on, \<open>json_object\<close> the members of an object
  from the quote of the first key on; both carry what they have read. Each of the two
  goes on only when the text left is shorter, which makes the recursion end; the tests
  are always true (lemmas \<open>json_array_unguarded\<close> and \<open>json_object_unguarded\<close>).
\<close>

function scan_once :: "pylib \<Rightarrow> string \<Rightarrow> (pyval \<times> string) option"
  and json_array :: "pylib \<Rightarrow> string \<Rightarrow> pyval list \<Rightarrow> (pyval \<times> string) option"
  and json_object :: "pylib \<Rightarrow> string \<Rightarrow> pydict \<Rightarrow> (pyval \<times> string) option"
where
  "scan_once L s =
     (case s of
        [] \<Rightarrow> None
      | c # cs \<Rightarrow>
          if c = CHR 0x22 then
            (case scanstring cs [] of None \<Rightarrow> None | Some (str, r) \<Rightarrow> Some (PStr str, r))
          else if c = CHR ''{'' then
            (if startswith (skip_ws cs) ''}'' then Some (PDict [], drop 1 (skip_ws cs))
             else json_object L (skip_ws cs) [])
          else if c = CHR ''['' then
            (if startswith (skip_ws cs) '']'' then Some (PList [], drop 1 (skip_ws cs))
             else json_array L (skip_ws cs) [])
          else if startswith s ''null'' then Some (PNone, drop 4 s)
          else if startswith s ''true'' then Some (PBool True, drop 4 s)
          else if startswith s ''false'' then Some (PBool False, drop 5 s)
          else
            (case scan_number L s of
               Some x \<Rightarrow> Some x
             | None \<Rightarrow>
                 if startswith s ''NaN'' then Some (PFloat NaN, drop 3 s)
                 else if startswith s ''Infinity'' then Some (PFloat PosInf, drop 8 s)
                 else if startswith s ''-Infinity'' then Some (PFloat NegInf, drop 9 s)
                 else None))"
| "json_array L s acc =
     (case scan_once L s of
        None \<Rightarrow> None
      | Some (v, r) \<Rightarrow>
          (case skip_ws r of
             [] \<Rightarrow> None
           | c # r' \<Rightarrow>
               if c = CHR '']'' then Some (PList (acc @ [v]), r')
               else if c = CHR '','' \<and> length (skip_ws r') < length s
               then json_array L (skip_ws r') (acc @ [v])
               else None))"
| "json_object L s d =
     (case s of
        [] \<Rightarrow> None
      | q # cs \<Rightarrow>
          if q \<noteq> CHR 0x22 then None
          else
            (case scanstring cs [] of
               None \<Rightarrow> None
             | Some (key, r) \<Rightarrow>
                 if \<not> startswith (skip_ws r) '':'' then None
                 else if \<not> length (skip_ws (drop 1 (skip_ws r))) < length s then None
                 else
                   (case scan_once L (skip_ws (drop 1 (skip_ws r))) of
                      None \<Rightarrow> None
                    | Some (v, r2) \<Rightarrow>
                        (case skip_ws r2 of
                           [] \<Rightarrow> None
                         | c # r3 \<Rightarrow>
                             if c = CHR ''}'' then Some (PDict (dict_set d key v), r3)
                             else if c = CHR '','' \<and> length (skip_ws r3) < length s
                             then json_object L (skip_ws r3) (dict_set d key v)
                             else None))))"
  by pat_completeness auto
termination
  by (relation "measure (\<lambda>x. case x of
         Inl (L, s) \<Rightarrow> 2 * length s
       | Inr (Inl (L, s, acc)) \<Rightarrow> 2 * length s + 1
       | Inr (Inr (L, s, d)) \<Rightarrow> 2 * length s + 1)")
     (auto simp: skip_ws_def intro!: le_imp_less_Suc mult_le_mono2 length_dropWhile_le)

definition json_loads :: "pylib \<Rightarrow> string \<Rightarrow> pyval option" where
  "json_loads L s =
     (case scan_once L (skip_ws s) of
        None \<Rightarrow> None
      | Some (v, r) \<Rightarrow> if skip_ws r = [] then Some v else None)"

section \<open>The match flow: \<^verbatim>\<open>jd_matcher.py\<close>\<close>

subsection \<open>\<^verbatim>\<open>validate_result_structure\<close>\<close>

definition categories :: "string list" where
  "categories = [''Technical Skills'', ''Experience'', ''Education'', ''Soft Skills'',
     ''Industry Knowledge'']"

text \<open>\<^verbatim>\<open>min(100, max(0, int(v)))\<close>, raising what \<^verbatim>\<open>int\<close> raises.\<close>

definition clamp_score :: "number \<Rightarrow> exn + int" where
  "clamp_score n = (case py_int n of Inl e \<Rightarrow> Inl e | Inr i \<Rightarrow> Inr (min 100 (max 0 i)))"

text \<open>
  The statement \<^verbatim>\<open>if isinstance(result.get("score"), (int, float)): validated["score"] = ...\<close>
  with the default \<open>0\<close> already in place.
\<close>

definition validate_score :: "pydict \<Rightarrow> exn + int" where
  "validate_score result =
     (case dict_get result ''score'' of
        None \<Rightarrow> Inr 0
      | Some v \<Rightarrow> (case as_number v of None \<Rightarrow> Inr 0 | Some n \<Rightarrow> clamp_score n))"

text \<open>One round of the loop over the three list fields; the default is the empty list.\<close>

definition validate_list :: "pylib \<Rightarrow> pydict \<Rightarrow> string \<Rightarrow> string list" where
  "validate_list L result field =
     (case dict_get result field of
        Some (PList items) \<Rightarrow> take 20 (map (py_str L) items)
      | _ \<Rightarrow> [])"

text \<open>
  The loop over the five keys of \<^verbatim>\<open>validated["category_scores"]\<close>: a key that the source
  mapping has with a number gets the clamped value, every other key keeps \<open>0\<close>. The first
  exception ends the loop.
\<close>

fun validate_categories :: "pydict \<Rightarrow> string list \<Rightarrow> exn + (string \<times> int) list" where
  "validate_categories cs [] = Inr []"
| "validate_categories cs (c # rest) =
     (case (case dict_get cs c of
              None \<Rightarrow> Inr 0
            | Some v \<Rightarrow> (case as_number v of None \<Rightarrow> Inr 0 | Some n \<Rightarrow> clamp_score n)) of
        Inl e \<Rightarrow> Inl e
      | Inr x \<Rightarrow> (case validate_categories cs rest of
                   Inl e \<Rightarrow> Inl e
                 | Inr xs \<Rightarrow> Inr ((c, x) # xs)))"

definition validate_category_scores :: "pydict \<Rightarrow> exn + (string \<times> int) list" where
  "validate_category_scores result =
     (case dict_get result ''category_scores'' of
        Some (PDict cs) \<Rightarrow> validate_categories cs categories
      | _ \<Rightarrow> Inr (map (\<lambda>c. (c, 0)) categories))"

text \<open>The dictionary \<^verbatim>\<open>validated\<close> as the function returns it.\<close>

definition match_result ::
  "int \<Rightarrow> string list \<Rightarrow> string list \<Rightarrow> string list \<Rightarrow> (string \<times> int) list \<Rightarrow> pyval" where
  "match_result score matching missing recs cats =
     PDict [(''score'', PInt score),
            (''matching_skills'', PList (map PStr matching)),
            (''missing_skills'', PList (map PStr missing)),
            (''recommendations'', PList (map PStr recs)),
            (''category_scores'', PDict (map (\<lambda>(c, x). (c, PInt x)) cats))]"

text \<open>
  \<^verbatim>\<open>result.get\<close> exists on a \<^verbatim>\<open>dict\<close> only: on every other value the first statement
  raises \<^verbatim>\<open>AttributeError\<close>. On a \<^verbatim>\<open>dict\<close> the score comes first, then the three lists,
  which raise nothing, then the categories; so the exception that leaves the function is
  that of the score, or else that of the first category that has one.
\<close>

fun type_name :: "pyval \<Rightarrow> string" where
  "type_name PNone = ''NoneType''"
| "type_name (PBool _) = ''bool''"
| "type_name (PInt _) = ''int''"
| "type_name (PFloat _) = ''float''"
| "type_name (PStr _) = ''str''"
| "type_name (PList _) = ''list''"
| "type_name (PDict _) = ''dict''"

definition no_attribute :: "pyval \<Rightarrow> string \<Rightarrow> exn" where
  "no_attribute v a =
     AttributeError ([CHR 0x27] @ type_name v @ [CHR 0x27] @ '' object has no attribute ''
       @ [CHR 0x27] @ a @ [CHR 0x27])"

definition validate_result_structure :: "pylib \<Rightarrow> pyval \<Rightarrow> exn + pyval" where
  "validate_result_structure L result =
     (case result of
        PDict d \<Rightarrow>
          (case validate_score d of
             Inl e \<Rightarrow> Inl e
           | Inr score \<Rightarrow>
               (case validate_category_scores d of
                  Inl e \<Rightarrow> Inl e
                | Inr cats \<Rightarrow>
                    Inr (match_result score
                           (validate_list L d ''matching_skills'')
                           (validate_list L d ''missing_skills'')
                           (validate_list L d ''recommendations'')
                           cats)))
      | _ \<Rightarrow> Inl (no_attribute result ''get''))"

subsection \<open>The normalizer: \<^verbatim>\<open>parse_gemini_response\<close> and its text fallback\<close>

text \<open>
  Both services cut a candidate for the JSON object out of a text in the same way: the
  stripped text itself when it starts with \<^verbatim>\<open>{\<close> and ends with \<^verbatim>\<open>}\<close>, otherwise the
  slice from its first \<^verbatim>\<open>{\<close> to its last \<^verbatim>\<open>}\<close> when it has both, otherwise the
  stripped text.
\<close>

definition json_candidate :: "string \<Rightarrow> string" where
  "json_candidate text =
     (let json_str = strip text in
      if \<not> (startswith json_str ''{'' \<and> endswith json_str ''}'') then
        (case (find_char json_str (CHR ''{''), rfind_char json_str (CHR ''}'')) of
           (Some start_idx, Some end_idx) \<Rightarrow> slice json_str start_idx (end_idx + 1)
         | _ \<Rightarrow> json_str)
      else json_str)"

definition any_char :: regex where
  "any_char = Class (\<lambda>_. True)"

definition space :: regex where
  "space = Class is_space"

definition digit :: regex where
  "digit = Class is_digit"

definition newline :: regex where
  "newline = Lit (CHR 0x0A)"

text \<open>The class \<^verbatim>\<open>[:\s]\<close>.\<close>

definition colon_or_space :: regex where
  "colon_or_space = Class (\<lambda>c. c = CHR '':'' \<or> is_space c)"

text \<open>
  The class of the bullet characters; the third one of the source, U+2022, is not among
  the characters of the model.
\<close>

definition bullet :: regex where
  "bullet = Class (\<lambda>c. c = CHR ''-'' \<or> c = CHR ''*'')"

text \<open>\<^verbatim>\<open>```json\s*({.+?})\s*```\<close> with \<^verbatim>\<open>re.DOTALL\<close>.\<close>

definition fence_jd :: regex where
  "fence_jd =
     seqs [lit ''```json'', Star space,
           Group (seqs [Lit (CHR ''{''), LazyOneOrMore any_char, Lit (CHR ''}'')]),
           Star space, lit ''```'']"

text \<open>
  \<^verbatim>\<open>{section_name}[:\s]*\n?(.*?)(?=\n\w+[:\s]|\n*$)\<close> with \<^verbatim>\<open>re.IGNORECASE\<close> and
  \<^verbatim>\<open>re.DOTALL\<close>.
\<close>

definition section_pattern :: "string \<Rightarrow> regex" where
  "section_pattern section_name =
     seqs [lit_ic section_name, Star colon_or_space, Optional newline,
           Group (Lazy any_char),
           Ahead (Alt (seqs [newline, OneOrMore (Class is_word), colon_or_space])
                      (Seq (Star newline) Eos))]"

definition extract_section :: "string \<Rightarrow> string \<Rightarrow> string" where
  "extract_section text section_name =
     (case re_search (section_pattern section_name) text of
        Some (_, Some g) \<Rightarrow> strip g
      | _ \<Rightarrow> [])"

text \<open>
  \<^verbatim>\<open>[-*\<bullet>]\s*(.+?)(?=\n[-*\<bullet>]|\n\d+\.|\n\w+|\n*$)\<close> and
  \<^verbatim>\<open>\d+\.\s*(.+?)(?=\n\d+\.|\n[-*\<bullet>]|\n\w+|\n*$)\<close>, both with \<^verbatim>\<open>re.DOTALL\<close>.
\<close>

definition bullet_pattern :: regex where
  "bullet_pattern =
     seqs [bullet, Star space, Group (LazyOneOrMore any_char),
           Ahead (Alt (Seq newline bullet)
                 (Alt (seqs [newline, OneOrMore digit, Lit (CHR ''.'')])
                 (Alt (Seq newline (OneOrMore (Class is_word)))
                      (Seq (Star newline) Eos))))]"

definition numbered_pattern :: regex where
  "numbered_pattern =
     seqs [OneOrMore digit, Lit (CHR ''.''), Star space, Group (LazyOneOrMore any_char),
           Ahead (Alt (seqs [newline, OneOrMore digit, Lit (CHR ''.'')])
                 (Alt (Seq newline bullet)
                 (Alt (Seq newline (OneOrMore (Class is_word)))
                      (Seq (Star newline) Eos))))]"

definition extract_list_items :: "string \<Rightarrow> string list" where
  "extract_list_items text =
     (let items = map strip (re_findall bullet_pattern text)
                  @ map strip (re_findall numbered_pattern text);
          items = (if items = []
                   then take 5 (filter (\<lambda>l. l \<noteq> []) (map strip (split_lines text [])))
                   else items)
      in take 10 items)"

text \<open>
  \<^verbatim>\<open>"score":\s*(\d+)\<close>, then \<^verbatim>\<open>score[:\s]*(\d+)\<close> and
  \<^verbatim>\<open>{category}[:\s]*(\d+)\<close> with \<^verbatim>\<open>re.IGNORECASE\<close>.
\<close>

definition score_pattern :: regex where
  \<open>score_pattern = seqs [lit ''"score":'', Star space, Group (OneOrMore digit)]\<close>

definition labelled_number :: "string \<Rightarrow> regex" where
  "labelled_number label = seqs [lit_ic label, Star colon_or_space, Group (OneOrMore digit)]"

text \<open>\<^verbatim>\<open>int(m.group(1))\<close> for the first match of a pattern, when there is one.\<close>

definition search_int :: "regex \<Rightarrow> string \<Rightarrow> int option" where
  "search_int r text =
     (case re_search r text of Some (_, Some g) \<Rightarrow> Some (int_of_digits g) | _ \<Rightarrow> None)"

definition text_list :: "string \<Rightarrow> string \<Rightarrow> string list" where
  "text_list text section_name =
     (let section = extract_section text section_name
      in if section \<noteq> [] then extract_list_items section else [])"

definition parse_text_response :: "string \<Rightarrow> pyval" where
  "parse_text_response text =
     match_result
       (case search_int score_pattern text of
          Some n \<Rightarrow> n
        | None \<Rightarrow> (case search_int (labelled_number ''score'') text of
                     Some n \<Rightarrow> n
                   | None \<Rightarrow> 0))
       (text_list text ''matching skills'')
       (text_list text ''missing skills'')
       (text_list text ''recommendations'')
       (map (\<lambda>category.
               (category,
                case search_int (labelled_number category) text of Some n \<Rightarrow> n | None \<Rightarrow> 0))
            categories)"

text \<open>
  \<^verbatim>\<open>parse_gemini_response\<close> of \<^verbatim>\<open>jd_matcher.py\<close>: the fenced object when it
  decodes, else the candidate when it decodes, else the text fallback.
\<close>

definition fenced_json :: "pylib \<Rightarrow> string \<Rightarrow> pyval option" where
  "fenced_json L response_text =
     (case re_search fence_jd response_text of
        Some (_, Some g) \<Rightarrow> json_loads L g
      | _ \<Rightarrow> None)"

definition parse_gemini_response_jd :: "pylib \<Rightarrow> string \<Rightarrow> pyval" where
  "parse_gemini_response_jd L response_text =
     (case fenced_json L response_text of
        Some v \<Rightarrow> v
      | None \<Rightarrow>
          (case json_loads L (json_candidate response_text) of
             Some v \<Rightarrow> v
           | None \<Rightarrow> parse_text_response response_text))"

subsection \<open>The provider and \<^verbatim>\<open>compare_resume_jd\<close>\<close>

text \<open>
  What the services see of their surroundings: the configured key
  (\<^verbatim>\<open>settings.GEMINI_API_KEY\<close>), whether \<^verbatim>\<open>genai.GenerativeModel\<close> raises (with
  which message), and what \<^verbatim>\<open>model.generate_content\<close> does on a prompt: it raises, or
  it returns a response with a text. \<^verbatim>\<open>genai.configure\<close> only stores the key.

  A service returns its result together with the prompts it has passed to
  \<^verbatim>\<open>generate_content\<close>, one for each call.
\<close>

record provider =
  api_key :: "string option"
  model_error :: "string option"
  generate_content :: "string \<Rightarrow> exn + string"

text \<open>\<^verbatim>\<open>not settings.GEMINI_API_KEY\<close>.\<close>

definition key_missing :: "provider \<Rightarrow> bool" where
  "key_missing P = (api_key P = None \<or> api_key P = Some [])"

text \<open>\<^verbatim>\<open>"\n".join(lines)\<close>.\<close>

fun join_lines :: "string list \<Rightarrow> string" where
  "join_lines [] = []"
| "join_lines [l] = l"
| "join_lines (l # ls) = l @ CHR 0x0A # join_lines ls"

definition match_prompt :: "string \<Rightarrow> string \<Rightarrow> string" where
  \<open>match_prompt resume_text jd_text =
     join_lines
       ['''',
        ''    ACT AS AN EXPERT ATS ANALYZER. Analyze how well this resume matches the job description.'',
        ''    '',
        ''    RESUME:'',
        ''    '']
     @
     resume_text
     @
     join_lines
       ['''',
        ''    '',
        ''    JOB DESCRIPTION:'',
        ''    '']
     @
     jd_text
     @
     join_lines
       ['''',
        ''    '',
        ''    YOUR ANALYSIS MUST INCLUDE:'',
        ''    1. Overall match score (0-100%)'',
        ''    2. List of matching skills (exact matches only)'',
        ''    3. List of missing skills (clearly missing from resume)'',
        ''    4. Specific recommendations to improve the resume'',
        ''    5. Category match scores (Technical Skills, Experience, Education, Soft Skills, Industry Knowledge)'',
        ''    '',
        ''    RESPONSE FORMAT (STRICT JSON ONLY):'',
        ''    {'',
        ''        "score": 75,'',
        ''        "matching_skills": ["Python", "Project Management"],'',
        ''        "missing_skills": ["AWS", "Docker"],'',
        ''        "recommendations": ['',
        ''            "Add AWS certification",'',
        ''            "Highlight Docker experience"'',
        ''        ],'',
        ''        "category_scores": {'',
        ''            "Technical Skills": 80,'',
        ''            "Experience": 70,'',
        ''            "Education": 90,'',
        ''            "Soft Skills": 65,'',
        ''            "Industry Knowledge": 75'',
        ''        }'',
        ''    }'',
        ''    '',
        ''    IMPORTANT:'',
        ''    - Only respond with valid JSON'',
        ''    - Do not include any markdown formatting'',
        ''    - Ensure all numbers are integers'',
        ''    - All arrays should contain at least 3 items if possible'',
        ''    '']\<close>

text \<open>The two messages for a text of fewer than 50 characters.\<close>

definition resume_too_short :: string where
  "resume_too_short = ''Resume text is too short or couldn't be properly extracted''"

definition jd_too_short :: string where
  "jd_too_short = ''Job description is too short or couldn't be properly extracted''"

text \<open>The dictionary \<^verbatim>\<open>error_response\<close> with its \<^verbatim>\<open>error\<close> entry set.\<close>

definition error_response :: "string \<Rightarrow> pyval" where
  "error_response msg =
     PDict [(''error'', PStr msg),
            (''score'', PInt 0),
            (''matching_skills'', PList []),
            (''missing_skills'', PList []),
            (''recommendations'', PList []),
            (''category_scores'', PDict (map (\<lambda>c. (c, PInt 0)) categories))]"

definition compare_resume_jd ::
  "pylib \<Rightarrow> provider \<Rightarrow> string \<Rightarrow> string \<Rightarrow> pyval \<times> string list" where
  "compare_resume_jd L P resume_text jd_text =
     (if key_missing P then (error_response ''Gemini API key is not configured'', [])
      else if length resume_text < 50 then (error_response resume_too_short, [])
      else if length jd_text < 50 then (error_response jd_too_short, [])
      else
        (case model_error P of
           Some m \<Rightarrow> (error_response (''Failed to create Gemini model: '' @ m), [])
         | None \<Rightarrow>
             (let prompt = match_prompt resume_text jd_text in
              case generate_content P prompt of
                Inl e \<Rightarrow> (error_response (str_exn e), [prompt])
              | Inr response_text \<Rightarrow>
                  (case validate_result_structure L
                          (parse_gemini_response_jd L response_text) of
                     Inl e \<Rightarrow> (error_response (str_exn e), [prompt])
                   | Inr validated \<Rightarrow> (validated, [prompt])))))"

section \<open>The analysis flow: \<^verbatim>\<open>analyzer.py\<close>\<close>

subsection \<open>The strict parse inside \<^verbatim>\<open>analyze_resume\<close>\<close>

text \<open>\<^verbatim>\<open>```json\s*([\s\S]*?)\s*```\<close>.\<close>

definition fence_analyzer :: regex where
  "fence_analyzer =
     seqs [lit ''```json'', Star space, Group (Lazy any_char), Star space, lit ''```'']"

definition required_fields :: "string list" where
  "required_fields = [''strengths'', ''areas_of_improvement'', ''project_recommendations'',
     ''career_roadmap'', ''recommended_courses'']"

text \<open>
  \<^verbatim>\<open>field in result\<close> and \<^verbatim>\<open>result[field] = v\<close> on whatever \<^verbatim>\<open>json.loads\<close> has
  returned; \<open>None\<close> stands for the \<^verbatim>\<open>TypeError\<close> that Python raises. A list has the
  field when one of its elements is that string, a string when the field occurs in it;
  neither takes an assignment under a string.
\<close>

fun py_in :: "string \<Rightarrow> pyval \<Rightarrow> bool option" where
  "py_in field (PDict d) = Some (dict_has d field)"
| "py_in field (PList xs) = Some (PStr field \<in> set xs)"
| "py_in field (PStr s) = Some (contains s field)"
| "py_in field _ = None"

fun py_setitem :: "pyval \<Rightarrow> string \<Rightarrow> pyval \<Rightarrow> pyval option" where
  "py_setitem (PDict d) field v = Some (PDict (dict_set d field v))"
| "py_setitem _ field v = None"

definition field_default :: "string \<Rightarrow> pyval" where
  "field_default field =
     (if field \<noteq> ''career_roadmap'' then PList [] else PStr ''No information provided'')"

text \<open>The loop \<^verbatim>\<open>for field in required_fields\<close>.\<close>

fun ensure_fields :: "pyval \<Rightarrow> string list \<Rightarrow> pyval option" where
  "ensure_fields result [] = Some result"
| "ensure_fields result (field # rest) =
     (case py_in field result of
        None \<Rightarrow> None
      | Some True \<Rightarrow> ensure_fields result rest
      | Some False \<Rightarrow>
          (case py_setitem result field (field_default field) of
             None \<Rightarrow> None
           | Some result' \<Rightarrow> ensure_fields result' rest))"

text \<open>
  The body of the inner \<^verbatim>\<open>try\<close>; \<open>None\<close> means that it has raised, whatever the
  exception, and the handler takes over.
\<close>

definition strict_candidate :: "string \<Rightarrow> string" where
  "strict_candidate response_text =
     json_candidate (case re_search fence_analyzer response_text of
                       Some (_, Some g) \<Rightarrow> g
                     | _ \<Rightarrow> response_text)"

definition strict_parse :: "pylib \<Rightarrow> string \<Rightarrow> pyval option" where
  "strict_parse L response_text =
     (case json_loads L (strict_candidate response_text) of
        None \<Rightarrow> None
      | Some result \<Rightarrow> ensure_fields result required_fields)"

subsection \<open>The heuristic fallback: \<^verbatim>\<open>parse_gemini_response\<close>\<close>

record analysis =
  strengths :: "string list"
  areas_of_improvement :: "string list"
  project_recommendations :: "string list"
  career_roadmap :: string
  recommended_courses :: "string list"
  raw_analysis :: string

definition sections :: "(string \<times> string list) list" where
  "sections =
     [(''strengths'', [''strength'', ''strengths'', ''strong points'']),
      (''areas_of_improvement'',
         [''improvement'', ''weaknesses'', ''areas of improvement'', ''improve'']),
      (''project_recommendations'', [''project'', ''projects'', ''build'', ''create'']),
      (''career_roadmap'', [''roadmap'', ''career path'', ''growth path'']),
      (''recommended_courses'', [''courses'', ''certification'', ''learn'', ''study''])]"

text \<open>
  The test of the inner loop: the lowered line has one of the keywords, and the line has
  a colon, a hash, or a full stop among its first two characters.
\<close>

definition is_header :: "string \<Rightarrow> string list \<Rightarrow> bool" where
  "is_header line keywords =
     ((\<exists>keyword \<in> set keywords. contains (lower line) keyword)
      \<and> (contains line '':'' \<or> contains line ''#'' \<or> contains (take 2 line) ''.''))"

definition find_section :: "string \<Rightarrow> string option" where
  "find_section line = map_option fst (find (\<lambda>(section, keywords). is_header line keywords) sections)"

text \<open>\<^verbatim>\<open>result[current_section].append(item)\<close> for the four list sections.\<close>

definition append_item :: "string \<Rightarrow> string \<Rightarrow> analysis \<Rightarrow> analysis" where
  "append_item section item result =
     (if section = ''strengths'' then result\<lparr>strengths := strengths result @ [item]\<rparr>
      else if section = ''areas_of_improvement''
      then result\<lparr>areas_of_improvement := areas_of_improvement result @ [item]\<rparr>
      else if section = ''project_recommendations''
      then result\<lparr>project_recommendations := project_recommendations result @ [item]\<rparr>
      else if section = ''recommended_courses''
      then result\<lparr>recommended_courses := recommended_courses result @ [item]\<rparr>
      else result)"

text \<open>
  One round of the loop over the lines; the state is the result and the current section.
  A line of a section that does not start with \<^verbatim>\<open>- \<close> or \<^verbatim>\<open>* \<close> (the third prefix of
  the source starts with U+2022, which is not among the characters of the model) reaches
  \<^verbatim>\<open>re.match\<close>. The module imports \<^verbatim>\<open>re\<close> only inside \<^verbatim>\<open>analyze_resume\<close>, so in this
  function the name is unbound and the call raises \<^verbatim>\<open>NameError\<close>; the branches behind
  it are never reached.
\<close>

definition re_not_defined :: string where
  "re_not_defined = ''name 're' is not defined''"

definition process_line ::
  "analysis \<times> string option \<Rightarrow> string \<Rightarrow> exn + analysis \<times> string option" where
  "process_line st raw =
     (let result = fst st; current_section = snd st; line = strip raw in
      if line = [] then Inr st
      else
        (case find_section line of
           Some section \<Rightarrow> Inr (result, Some section)
         | None \<Rightarrow>
             (case current_section of
                None \<Rightarrow> Inr st
              | Some section \<Rightarrow>
                  if startswith line ''- '' \<or> startswith line ''* ''
                  then Inr (append_item section (strip (lstrip_chars ''- *'' line)) result,
                            current_section)
                  else Inl (NameError re_not_defined))))"

fun process_lines ::
  "analysis \<times> string option \<Rightarrow> string list \<Rightarrow> exn + analysis \<times> string option" where
  "process_lines st [] = Inr st"
| "process_lines st (line # lines) =
     (case process_line st line of
        Inl e \<Rightarrow> Inl e
      | Inr st' \<Rightarrow> process_lines st' lines)"

text \<open>The positional fallback, when the lines have given nothing at all.\<close>

definition nothing_found :: "analysis \<Rightarrow> bool" where
  "nothing_found result =
     (strengths result = [] \<and> areas_of_improvement result = []
      \<and> project_recommendations result = [] \<and> career_roadmap result = []
      \<and> recommended_courses result = [])"

definition positional_fallback :: "string \<Rightarrow> analysis \<Rightarrow> analysis" where
  "positional_fallback response_text result =
     (let paragraphs = split_paragraphs response_text [] in
      if 5 \<le> length paragraphs then
        result\<lparr>strengths := [paragraphs ! 0],
               areas_of_improvement := [paragraphs ! 1],
               project_recommendations := [paragraphs ! 2],
               career_roadmap := paragraphs ! 3,
               recommended_courses := [paragraphs ! 4]\<rparr>
      else result)"

text \<open>The placeholders for what is still empty.\<close>

definition fill_placeholders :: "analysis \<Rightarrow> analysis" where
  "fill_placeholders result =
     (let result = (if strengths result = []
                    then result\<lparr>strengths := [''Could not extract strengths from analysis'']\<rparr>
                    else result);
          result = (if areas_of_improvement result = []
                    then result\<lparr>areas_of_improvement :=
                           [''Could not extract areas of improvement from analysis'']\<rparr>
                    else result);
          result = (if project_recommendations result = []
                    then result\<lparr>project_recommendations :=
                           [''Could not extract project recommendations from analysis'']\<rparr>
                    else result);
          result = (if career_roadmap result = []
                    then result\<lparr>career_roadmap :=
                           ''Could not extract career roadmap from analysis''\<rparr>
                    else result);
          result = (if recommended_courses result = []
                    then result\<lparr>recommended_courses :=
                           [''Could not extract recommended courses from analysis'']\<rparr>
                    else result)
      in result)"

text \<open>The dictionary that the function returns.\<close>

definition analysis_dict :: "analysis \<Rightarrow> pyval" where
  "analysis_dict result =
     PDict [(''strengths'', PList (map PStr (strengths result))),
            (''areas_of_improvement'', PList (map PStr (areas_of_improvement result))),
            (''project_recommendations'', PList (map PStr (project_recommendations result))),
            (''career_roadmap'', PStr (career_roadmap result)),
            (''recommended_courses'', PList (map PStr (recommended_courses result))),
            (''raw_analysis'', PStr (raw_analysis result))]"

definition parse_gemini_response_analyzer :: "string \<Rightarrow> exn + pyval" where
  "parse_gemini_response_analyzer response_text =
     (let result = \<lparr>strengths = [], areas_of_improvement = [], project_recommendations = [],
                     career_roadmap = [], recommended_courses = [],
                     raw_analysis = response_text\<rparr>
      in case process_lines (result, None) (split_lines response_text []) of
           Inl e \<Rightarrow> Inl e
         | Inr (result, current_section) \<Rightarrow>
             (let result = (if nothing_found result
                            then positional_fallback response_text result else result)
              in Inr (analysis_dict (fill_placeholders result))))"

subsection \<open>\<^verbatim>\<open>analyze_resume\<close>\<close>

definition analysis_prompt :: "string \<Rightarrow> string" where
  \<open>analysis_prompt resume_text =
     join_lines
       ['''',
        ''    You are an expert resume analyzer and career advisor. '',
        ''    Analyze the following resume carefully and provide detailed feedback.'',
        ''    '',
        ''    Resume Text:'',
        ''    '']
     @
     resume_text
     @
     join_lines
       ['''',
        ''    '',
        ''    Please provide the following details in your analysis:'',
        ''    1. Strengths: Identify the key strengths of the candidate based on their resume.'',
        ''    2. Areas of Improvement: Identify areas where the candidate could improve.'',
        ''    3. Project Recommendations: Based on their skills, suggest 3-5 projects they could build to showcase their abilities.'',
        ''    4. Career Roadmap: Suggest a 1-2 year roadmap for career growth.'',
        ''    5. Recommended Courses: Suggest 3-5 specific courses or certifications that would benefit them.'',
        ''    '',
        ''    Format your response in JSON like this:'',
        ''    {'',
        ''      "strengths": ["strength1", "strength2", "strength3"],'',
        ''      "areas_of_improvement": ["area1", "area2", "area3"],'',
        ''      "project_recommendations": ["project1", "project2", "project3"],'',
        ''      "career_roadmap": "Detailed career roadmap goes here...",'',
        ''      "recommended_courses": ["course1", "course2", "course3"]'',
        ''    }'',
        ''    '']\<close>

definition error_result ::
  "string \<Rightarrow> string list \<Rightarrow> string list \<Rightarrow> string list \<Rightarrow> string \<Rightarrow> string list \<Rightarrow> pyval" where
  "error_result msg s a p roadmap c =
     PDict [(''error'', PStr msg),
            (''strengths'', PList (map PStr s)),
            (''areas_of_improvement'', PList (map PStr a)),
            (''project_recommendations'', PList (map PStr p)),
            (''career_roadmap'', PStr roadmap),
            (''recommended_courses'', PList (map PStr c))]"

text \<open>The handler of the outer \<^verbatim>\<open>try\<close>.\<close>

definition api_error_result :: "exn \<Rightarrow> pyval" where
  "api_error_result e =
     error_result (str_exn e) [''Error occurred during analysis''] [''Try again later''] []
       (''Error occurred during analysis: '' @ str_exn e) []"

definition analyze_resume :: "pylib \<Rightarrow> provider \<Rightarrow> string \<Rightarrow> pyval \<times> string list" where
  "analyze_resume L P resume_text =
     (if key_missing P then
        (error_result ''Gemini API key is not configured'' [''API key missing'']
           [''Configure Gemini API key''] [''Set up proper API configuration'']
           ''Please configure the Gemini API key to get results''
           [''API configuration course''], [])
      else
        (case model_error P of
           Some m \<Rightarrow>
             (error_result (''Failed to create Gemini model: '' @ m) [] [] []
                ''Error occurred during analysis setup'' [], [])
         | None \<Rightarrow>
             if length resume_text < 50 then
               (error_result resume_too_short
                  [''Unable to analyze - resume text too short'']
                  [''Provide a more complete resume''] []
                  ''Please provide a more detailed resume for analysis'' [], [])
             else
               (let prompt = analysis_prompt resume_text in
                case generate_content P prompt of
                  Inl e \<Rightarrow> (api_error_result e, [prompt])
                | Inr response_text \<Rightarrow>
                    (case strict_parse L response_text of
                       Some result \<Rightarrow> (result, [prompt])
                     | None \<Rightarrow>
                         (case parse_gemini_response_analyzer response_text of
                            Inl e \<Rightarrow> (api_error_result e, [prompt])
                          | Inr result \<Rightarrow> (result, [prompt]))))))"

section \<open>Notions for stating the properties\<close>

text \<open>The entry of a result under a key, when the result is a dictionary.\<close>

definition field :: "pyval \<Rightarrow> string \<Rightarrow> pyval option" where
  "field result k = (case result of PDict d \<Rightarrow> dict_get d k | _ \<Rightarrow> None)"

definition nonempty_list :: "pyval option \<Rightarrow> bool" where
  "nonempty_list v = (case v of Some (PList items) \<Rightarrow> items \<noteq> [] | _ \<Rightarrow> False)"

definition nonempty_text :: "pyval option \<Rightarrow> bool" where
  "nonempty_text v = (case v of Some (PStr s) \<Rightarrow> s \<noteq> [] | _ \<Rightarrow> False)"

text \<open>An integer from 0 to 100.\<close>

definition score_in_range :: "pyval option \<Rightarrow> bool" where
  "score_in_range v = (case v of Some (PInt x) \<Rightarrow> 0 \<le> x \<and> x \<le> 100 | _ \<Rightarrow> False)"

text \<open>The keys of \<^verbatim>\<open>category_scores\<close> in a result, and its value for a category.\<close>

definition category_keys :: "pyval \<Rightarrow> string list option" where
  "category_keys result =
     (case field result ''category_scores'' of
        Some (PDict cs) \<Rightarrow> Some (dict_keys cs)
      | _ \<Rightarrow> None)"

definition category_value :: "pyval \<Rightarrow> string \<Rightarrow> pyval option" where
  "category_value result c =
     (case field result ''category_scores'' of
        Some (PDict cs) \<Rightarrow> dict_get cs c
      | _ \<Rightarrow> None)"

text \<open>
  What the model supplies for a category: the value in the normalized response, when
  the model has answered.
\<close>

definition supplied_category ::
  "pylib \<Rightarrow> provider \<Rightarrow> string \<Rightarrow> string \<Rightarrow> string \<Rightarrow> pyval option" where
  "supplied_category L P resume_text jd_text c =
     (case generate_content P (match_prompt resume_text jd_text) of
        Inl e \<Rightarrow> None
      | Inr response_text \<Rightarrow> category_value (parse_gemini_response_jd L response_text) c)"

text \<open>
  The target shape of the match flow: exactly the five entries, an integer score from 0
  to 100, three lists of at most 20 strings, and under \<^verbatim>\<open>category_scores\<close> exactly the
  five categories with integers from 0 to 100.
\<close>

definition is_str :: "pyval \<Rightarrow> bool" where
  "is_str v = (case v of PStr s \<Rightarrow> True | _ \<Rightarrow> False)"

definition string_list :: "pyval option \<Rightarrow> bool" where
  "string_list v =
     (case v of Some (PList items) \<Rightarrow> length items \<le> 20 \<and> list_all is_str items | _ \<Rightarrow> False)"

definition conformant :: "pydict \<Rightarrow> bool" where
  "conformant d =
     (set (dict_keys d) = {''score'', ''matching_skills'', ''missing_skills'',
                           ''recommendations'', ''category_scores''}
      \<and> score_in_range (dict_get d ''score'')
      \<and> string_list (dict_get d ''matching_skills'')
      \<and> string_list (dict_get d ''missing_skills'')
      \<and> string_list (dict_get d ''recommendations'')
      \<and> (case dict_get d ''category_scores'' of
            Some (PDict cs) \<Rightarrow>
              set (dict_keys cs) = set categories
              \<and> list_all (\<lambda>c. score_in_range (dict_get cs c)) categories
          | _ \<Rightarrow> False))"

text \<open>
  Equality of two results as Python compares dictionaries: the same keys with equal
  values, in whatever order, also inside \<^verbatim>\<open>category_scores\<close>. Values other than
  dictionaries are equal here when they are the same value, which is no weaker than
  Python's \<^verbatim>\<open>==\<close>.
\<close>

definition same_mapping :: "pydict \<Rightarrow> pydict \<Rightarrow> bool" where
  "same_mapping a b =
     (set (dict_keys a) = set (dict_keys b)
      \<and> list_all (\<lambda>k. dict_get a k = dict_get b k) (dict_keys a))"

definition equal_results :: "pyval \<Rightarrow> pyval \<Rightarrow> bool" where
  "equal_results v w =
     (case (v, w) of
        (PDict a, PDict b) \<Rightarrow>
          set (dict_keys a) = set (dict_keys b)
          \<and> list_all (\<lambda>k. case (dict_get a k, dict_get b k) of
                             (Some (PDict x), Some (PDict y)) \<Rightarrow> same_mapping x y
                           | (x, y) \<Rightarrow> x = y)
                       (dict_keys a)
      | _ \<Rightarrow> False)"

subsection \<open>Fixtures for the examples\<close>

text \<open>
  To run the model on a concrete text the two library functions need an instance. No
  example below consults it: none has a number with a fraction or an exponent, and the
  validator meets no list item other than a string.
\<close>

definition idle_lib :: pylib where
  "idle_lib = \<lparr>parse_float = (\<lambda>literal. NaN), repr = type_name\<rparr>"

text \<open>
  A provider with a key whose model answers every prompt with the given text, and one
  whose model cannot be constructed.
\<close>

definition answering :: "string \<Rightarrow> provider" where
  "answering response_text =
     \<lparr>api_key = Some ''key'', model_error = None,
      generate_content = (\<lambda>prompt. Inr response_text)\<rparr>"

definition broken_model :: "string \<Rightarrow> provider" where
  "broken_model msg =
     \<lparr>api_key = Some ''key'', model_error = Some msg,
      generate_content = (\<lambda>prompt. Inr [])\<rparr>"

text \<open>A provider without a key, and one with a key whose model raises on every prompt.\<close>

definition unconfigured :: provider where
  "unconfigured =
     \<lparr>api_key = None, model_error = None, generate_content = (\<lambda>prompt. Inr [])\<rparr>"

definition raising :: "string \<Rightarrow> provider" where
  "raising msg =
     \<lparr>api_key = Some ''key'', model_error = None,
      generate_content = (\<lambda>prompt. Inl (ProviderError msg))\<rparr>"

text \<open>
  Two responses that are JSON objects of the target shape; the first holds a fenced block
  inside one of its strings.
\<close>

definition fence_in_object :: string where
  \<open>fence_in_object = ''{"score": 50, "matching_skills": ["```json { } ```"], "missing_skills": [], "recommendations": [], "category_scores": {"Technical Skills": 1, "Experience": 2, "Education": 3, "Soft Skills": 4, "Industry Knowledge": 5}}''\<close>

definition plain_object :: string where
  \<open>plain_object = ''{"category_scores": {"Experience": 2, "Technical Skills": 1, "Education": 3, "Soft Skills": 4, "Industry Knowledge": 5}, "score": 50, "matching_skills": ["Go"], "missing_skills": [], "recommendations": ["Learn AWS"]}''\<close>

text \<open>A text of 50 characters.\<close>

definition long_text :: string where
  "long_text = replicate 50 (CHR ''x'')"

section \<open>The decoder consumes what it reads\<close>

text \<open>
  Whatever \<open>scan_once\<close>, \<open>json_array\<close> and \<open>json_object\<close> return, the rest of
  the text is shorter than the text.
\<close>

lemma scanstring_shorter: "scanstring s acc = Some (x, r) \<Longrightarrow> length r < length s"
proof (induction s acc rule: scanstring.induct)
  case (1 acc)
  then show ?case by simp
next
  case (2 c cs acc)
  show ?case
  proof (cases "c = CHR 0x22")
    case True
    with "2.prems" show ?thesis by simp
  next
    case quote: False
    show ?thesis
    proof (cases "c = CHR 0x5C")
      case False
      with quote "2.prems" have "scanstring cs (c # acc) = Some (x, r)"
        by (simp split: if_splits)
      moreover from quote False "2.prems" have "\<not> (of_char c :: nat) < 32"
        by (simp split: if_splits)
      ultimately have "length r < length cs"
        using "2.IH"(3) quote False by simp
      then show ?thesis by simp
    next
      case True
      with quote "2.prems" obtain e r0 where cs: "cs = e # r0"
        by (cases cs) auto
      show ?thesis
      proof (cases "e = CHR ''u''")
        case False
        with quote True cs "2.prems" obtain y where y: "backslash e = Some y"
          and rec: "scanstring r0 (y # acc) = Some (x, r)"
          by (auto split: option.splits)
        from "2.IH"(2) [OF quote True cs False y rec] cs show ?thesis
          by simp
      next
        case u: True
        with quote True cs "2.prems" obtain h1 h2 h3 h4 r' n where
          r0: "r0 = h1 # h2 # h3 # h4 # r'" and n: "hex4 h1 h2 h3 h4 = Some n" "n < 256"
          and rec: "scanstring r' (char_of n # acc) = Some (x, r)"
          by (auto split: list.splits option.splits if_splits)
        from "2.IH"(1) [OF quote True cs u r0 refl refl refl n rec] cs r0 show ?thesis
          by simp
      qed
    qed
  qed
qed


lemma scan_fraction_shorter: "scan_fraction s = (f, r) \<Longrightarrow> length r \<le> length s"
proof -
  have "length (dropWhile is_digit xs) \<le> length xs" for xs :: string
    by (rule length_dropWhile_le)
  then show "scan_fraction s = (f, r) \<Longrightarrow> length r \<le> length s"
    by (auto simp: scan_fraction_def le_SucI split: list.splits if_splits)
qed

lemma scan_exponent_shorter:
  assumes "scan_exponent s = (e, r)"
  shows "length r \<le> length s"
proof (cases s)
  case Nil
  with assms show ?thesis
    by (simp add: scan_exponent_def)
next
  case (Cons c cs)
  define sign where
    "sign = (case cs of [] \<Rightarrow> [] | x # _ \<Rightarrow> if x = CHR ''+'' \<or> x = CHR ''-'' then [x] else [])"
  have "scan_exponent s =
      (if c = CHR ''e'' \<or> c = CHR ''E'' then
         (if takeWhile is_digit (drop (length sign) cs) = [] then ([], s)
          else (c # sign @ takeWhile is_digit (drop (length sign) cs),
                dropWhile is_digit (drop (length sign) cs)))
       else ([], s))"
    unfolding scan_exponent_def Cons sign_def by (simp only: list.case Let_def)
  with assms have "r = s \<or> r = dropWhile is_digit (drop (length sign) cs)"
    by (simp split: if_splits)
  moreover have "length (dropWhile is_digit (drop (length sign) cs)) \<le> length (drop (length sign) cs)"
    by (rule length_dropWhile_le)
  ultimately show ?thesis
    using Cons by auto
qed

lemma scan_unsigned_shorter:
  assumes "scan_unsigned L sign r0 = Some (v, r)"
  shows "length r < length r0"
proof (cases r0)
  case Nil
  with assms show ?thesis
    by (simp add: scan_unsigned_def)
next
  case (Cons c cs)
  define digits where "digits = (if c = CHR ''0'' then [c] else takeWhile is_digit r0)"
  define r1 where "r1 = drop (length digits) r0"
  obtain f r2 where f: "scan_fraction r1 = (f, r2)" by (cases "scan_fraction r1")
  obtain e r3 where e: "scan_exponent r2 = (e, r3)" by (cases "scan_exponent r2")
  have "scan_unsigned L sign r0 =
      (if \<not> is_digit c then None
       else if f = [] \<and> e = []
       then Some (PInt (if sign = [] then int_of_digits digits else - int_of_digits digits), r3)
       else Some (PFloat (parse_float L (sign @ digits @ f @ e)), r3))"
    unfolding scan_unsigned_def
    by (subst Cons) (simp only: list.case Let_def digits_def [symmetric] r1_def [symmetric]
          f e prod.case)
  with assms have c: "is_digit c" and r: "r = r3"
    by (auto split: if_splits)
  have "digits \<noteq> []"
    using c Cons by (simp add: digits_def)
  then have "length r1 < length r0"
    using Cons by (cases digits) (auto simp: r1_def)
  moreover have "length r3 \<le> length r1"
    using scan_fraction_shorter [OF f] scan_exponent_shorter [OF e] by simp
  ultimately show ?thesis
    using r by simp
qed

lemma scan_number_shorter:
  assumes "scan_number L s = Some (v, r)"
  shows "length r < length s"
proof -
  define sign where "sign = (case s of [] \<Rightarrow> [] | x # _ \<Rightarrow> if x = CHR ''-'' then [x] else [])"
  have "scan_number L s = scan_unsigned L sign (drop (length sign) s)"
    unfolding scan_number_def sign_def by (simp only: Let_def)
  with assms have "scan_unsigned L sign (drop (length sign) s) = Some (v, r)"
    by simp
  then have "length r < length (drop (length sign) s)"
    by (rule scan_unsigned_shorter)
  then show ?thesis by simp
qed

lemma startswith_shorter: "startswith s p \<Longrightarrow> p \<noteq> [] \<Longrightarrow> length (drop (length p) s) < length s"
  by (cases s) (auto simp: startswith_def)

lemma skip_ws_shorter: "length (skip_ws s) \<le> length s"
  by (simp add: skip_ws_def length_dropWhile_le)

lemma skip_ws_Cons_shorter: "skip_ws r = c # r' \<Longrightarrow> length r' < length r"
  using skip_ws_shorter [of r] by simp

lemma decoder_shorter:
  "scan_once L s = Some (v, r) \<Longrightarrow> length r < length s"
  "json_array L s acc = Some (v, r) \<Longrightarrow> length r < length s"
  "json_object L s d = Some (v, r) \<Longrightarrow> length r < length s"
proof (induction L s and L s acc and L s d arbitrary: v r and v r and v r
       rule: scan_once_json_array_json_object.induct)
  case (1 L s)
  show ?case
  proof (cases s)
    case Nil
    with "1.prems" show ?thesis by simp
  next
    case (Cons c cs)
    have ws: "length (skip_ws cs) < length s"
      using skip_ws_shorter [of cs] Cons by simp
    consider (str) "c = CHR 0x22" | (obj) "c \<noteq> CHR 0x22" "c = CHR ''{''"
      | (arr) "c \<noteq> CHR 0x22" "c \<noteq> CHR ''{''" "c = CHR ''[''"
      | (other) "c \<noteq> CHR 0x22" "c \<noteq> CHR ''{''" "c \<noteq> CHR ''[''"
      by blast
    then show ?thesis
    proof cases
      case str
      with "1.prems" Cons show ?thesis
        by (auto split: option.splits dest: scanstring_shorter)
    next
      case obj
      show ?thesis
      proof (cases "startswith (skip_ws cs) ''}''")
        case True
        with "1.prems" Cons obj ws show ?thesis by auto
      next
        case False
        with "1.prems" Cons obj have "json_object L (skip_ws cs) [] = Some (v, r)"
          by simp
        from "1.IH"(1) [OF Cons obj(1) _ False this] obj ws show ?thesis
          by simp
      qed
    next
      case arr
      show ?thesis
      proof (cases "startswith (skip_ws cs) '']''")
        case True
        with "1.prems" Cons arr ws show ?thesis by auto
      next
        case False
        with "1.prems" Cons arr have "json_array L (skip_ws cs) [] = Some (v, r)"
          by simp
        from "1.IH"(2) [OF Cons arr(1) arr(2) _ False this] arr ws show ?thesis
          by simp
      qed
    next
      case other
      with "1.prems" Cons show ?thesis
        by (auto simp: startswith_def split: if_splits option.splits
                 dest!: scan_number_shorter)
    qed
  qed
next
  case (2 L s acc)
  from "2.prems" obtain w r1 where w: "scan_once L s = Some (w, r1)"
    by (auto split: option.splits)
  from "2.IH"(1) [OF w] have r1: "length r1 < length s" .
  from "2.prems" w obtain c r' where c: "skip_ws r1 = c # r'"
    by (auto split: list.splits)
  have r': "length r' < length s"
    using skip_ws_Cons_shorter [OF c] r1 by simp
  show ?case
  proof (cases "c = CHR '']''")
    case True
    with "2.prems" w c r' show ?thesis by simp
  next
    case False
    with "2.prems" w c have g: "c = CHR '',''" "length (skip_ws r') < length s"
      and rec: "json_array L (skip_ws r') (acc @ [w]) = Some (v, r)"
      by (auto split: if_splits)
    from "2.IH"(2) [OF w refl c False _ rec] g have "length r < length (skip_ws r')"
      by simp
    with g show ?thesis by simp
  qed
next
  case (3 L s d)
  from "3.prems" obtain q cs where s: "s = q # cs" and q: "q = CHR 0x22"
    by (cases s) (auto split: if_splits)
  from "3.prems" s q obtain key r0 where key: "scanstring cs [] = Some (key, r0)"
    by (auto split: option.splits)
  from "3.prems" s q key have colon: "startswith (skip_ws r0) '':''"
    and g: "length (skip_ws (drop 1 (skip_ws r0))) < length s"
    by (auto split: if_splits)
  from "3.prems" s q key colon g obtain w r2 where
    w: "scan_once L (skip_ws (drop 1 (skip_ws r0))) = Some (w, r2)"
    by (auto split: option.splits)
  have q': "\<not> q \<noteq> CHR 0x22" using q by simp
  have colon': "\<not> \<not> startswith (skip_ws r0) '':''" using colon by simp
  have g': "\<not> \<not> length (skip_ws (drop 1 (skip_ws r0))) < length s" using g by simp
  from "3.IH"(1) [OF s q' key refl colon' g' w]
  have r2: "length r2 < length s" using g by simp
  from "3.prems" s q key colon g w obtain c r3 where c: "skip_ws r2 = c # r3"
    by (auto split: list.splits)
  have r3: "length r3 < length s"
    using skip_ws_Cons_shorter [OF c] r2 by simp
  show ?case
  proof (cases "c = CHR ''}''")
    case True
    with "3.prems" s q key colon g w c r3 show ?thesis by simp
  next
    case False
    with "3.prems" s q key colon g w c have h: "c = CHR '',''" "length (skip_ws r3) < length s"
      and rec: "json_object L (skip_ws r3) (dict_set d key w) = Some (v, r)"
      by (auto split: if_splits)
    from "3.IH"(2) [OF s q' key refl colon' g' w refl c False _ rec] h
    have "length r < length (skip_ws r3)" by simp
    with h show ?thesis by simp
  qed
qed


text \<open>
  So the two tests on the length in \<open>json_array\<close> and \<open>json_object\<close> never fail: the
  functions satisfy the equations without them.
\<close>

lemma json_array_unguarded:
  "json_array L s acc =
     (case scan_once L s of
        None \<Rightarrow> None
      | Some (v, r) \<Rightarrow>
          (case skip_ws r of
             [] \<Rightarrow> None
           | c # r' \<Rightarrow>
               if c = CHR '']'' then Some (PList (acc @ [v]), r')
               else if c = CHR '','' then json_array L (skip_ws r') (acc @ [v])
               else None))"
proof (cases "scan_once L s")
  case None
  then show ?thesis
    by (subst json_array.simps) simp
next
  case (Some p)
  obtain v r where p: "p = (v, r)" by (cases p)
  have r: "length r < length s"
    using Some p decoder_shorter(1) by blast
  show ?thesis
  proof (cases "skip_ws r")
    case Nil
    with Some p show ?thesis
      by (subst json_array.simps) simp
  next
    case (Cons c r')
    have "length (skip_ws r') < length s"
      using skip_ws_Cons_shorter [OF Cons] skip_ws_shorter [of r'] r by simp
    with Some p Cons show ?thesis
      by (subst json_array.simps) simp
  qed
qed

lemma json_object_unguarded:
  "json_object L s d =
     (case s of
        [] \<Rightarrow> None
      | q # cs \<Rightarrow>
          if q \<noteq> CHR 0x22 then None
          else
            (case scanstring cs [] of
               None \<Rightarrow> None
             | Some (key, r) \<Rightarrow>
                 if \<not> startswith (skip_ws r) '':'' then None
                 else
                   (case scan_once L (skip_ws (drop 1 (skip_ws r))) of
                      None \<Rightarrow> None
                    | Some (v, r2) \<Rightarrow>
                        (case skip_ws r2 of
                           [] \<Rightarrow> None
                         | c # r3 \<Rightarrow>
                             if c = CHR ''}'' then Some (PDict (dict_set d key v), r3)
                             else if c = CHR '','' then json_object L (skip_ws r3) (dict_set d key v)
                             else None))))"
proof (cases s)
  case Nil
  then show ?thesis
    by (subst json_object.simps) simp
next
  case s: (Cons q cs)
  show ?thesis
  proof (cases "scanstring cs []")
    case None
    with s show ?thesis
      by (subst json_object.simps) simp
  next
    case (Some p)
    obtain key r where p: "p = (key, r)" by (cases p)
    have r: "length r < length cs"
      using Some p scanstring_shorter by blast
    have g1: "length (skip_ws (drop 1 (skip_ws r))) < length s"
    proof -
      have "length (skip_ws (drop 1 (skip_ws r))) \<le> length (drop 1 (skip_ws r))"
        by (rule skip_ws_shorter)
      also have "\<dots> \<le> length (skip_ws r)" by simp
      also have "\<dots> \<le> length r" by (rule skip_ws_shorter)
      finally show ?thesis using r s by simp
    qed
    show ?thesis
    proof (cases "scan_once L (skip_ws (drop 1 (skip_ws r)))")
      case None
      with s Some p g1 show ?thesis
        by (subst json_object.simps) simp
    next
      case v: (Some w)
      obtain v r2 where w: "w = (v, r2)" by (cases w)
      have r2: "length r2 < length s"
        using v w decoder_shorter(1) g1 by (meson less_trans)
      show ?thesis
      proof (cases "skip_ws r2")
        case Nil
        with s Some p g1 v w show ?thesis
          by (subst json_object.simps) simp
      next
        case (Cons c r3)
        have "length (skip_ws r3) < length s"
          using skip_ws_Cons_shorter [OF Cons] skip_ws_shorter [of r3] r2 by simp
        with s Some p g1 v w Cons show ?thesis
          by (subst json_object.simps) simp
      qed
    qed
  qed
qed

section \<open>Properties of the match flow\<close>

subsection \<open>The validator\<close>

lemma clamp_score_range: "clamp_score n = Inr x \<Longrightarrow> 0 \<le> x \<and> x \<le> 100"
  by (auto simp: clamp_score_def split: sum.splits)

lemma validate_score_range: "validate_score d = Inr x \<Longrightarrow> 0 \<le> x \<and> x \<le> 100"
  by (auto simp: validate_score_def split: option.splits dest: clamp_score_range)

lemma validate_categories_keys:
  "validate_categories cs ks = Inr xs \<Longrightarrow> map fst xs = ks"
  by (induction ks arbitrary: xs) (auto split: sum.splits option.splits)

lemma validate_categories_range:
  "validate_categories cs ks = Inr xs \<Longrightarrow> p \<in> set xs \<Longrightarrow> 0 \<le> snd p \<and> snd p \<le> 100"
proof (induction ks arbitrary: xs)
  case Nil
  then show ?case by simp
next
  case (Cons k ks)
  from Cons.prems(1) obtain x ys where
    xs: "xs = (k, x) # ys" and ys: "validate_categories cs ks = Inr ys"
    and x: "x = 0 \<or> (\<exists>n. clamp_score n = Inr x)"
    by (auto split: sum.splits option.splits)
  from x have "0 \<le> x \<and> x \<le> 100"
    using clamp_score_range by auto
  with Cons.IH [OF ys] Cons.prems(2) xs show ?case by auto
qed

lemma validate_categories_default:
  "validate_categories cs ks = Inr xs \<Longrightarrow> dict_get cs c = None \<Longrightarrow> (c, x) \<in> set xs \<Longrightarrow> x = 0"
  by (induction ks arbitrary: xs) (auto split: sum.splits option.splits)

lemma validate_category_scores_keys:
  "validate_category_scores d = Inr xs \<Longrightarrow> map fst xs = categories"
  by (auto simp: validate_category_scores_def comp_def split: option.splits pyval.splits
           dest: validate_categories_keys)

lemma validate_category_scores_range:
  "validate_category_scores d = Inr xs \<Longrightarrow> p \<in> set xs \<Longrightarrow> 0 \<le> snd p \<and> snd p \<le> 100"
  by (auto simp: validate_category_scores_def split: option.splits pyval.splits
           dest: validate_categories_range)

lemma field_match_result:
  "field (match_result s a b c cats) ''category_scores''
     = Some (PDict (map (\<lambda>(c, x). (c, PInt x)) cats))"
  by (simp add: field_def match_result_def dict_get_def)

lemma category_keys_match_result:
  "category_keys (match_result s a b c cats) = Some (map fst cats)"
  by (simp add: category_keys_def field_match_result dict_keys_def comp_def case_prod_unfold)

lemma category_value_match_result:
  "category_value (match_result s a b c cats) k = map_option PInt (map_of cats k)"
  by (induction cats) (auto simp: category_value_def field_match_result dict_get_def)

lemma category_keys_error_response:
  "category_keys (error_response m) = Some categories"
  by (simp add: category_keys_def field_def error_response_def dict_get_def dict_keys_def
        comp_def)

lemma category_value_error_response:
  "c \<in> set categories \<Longrightarrow> category_value (error_response m) c = Some (PInt 0)"
  by (auto simp: category_value_def field_def error_response_def dict_get_def categories_def)

lemma validate_result_structure_Inr:
  assumes "validate_result_structure L v = Inr r"
  obtains d s cats where "v = PDict d" "validate_score d = Inr s"
    "validate_category_scores d = Inr cats"
    "r = match_result s (validate_list L d ''matching_skills'')
           (validate_list L d ''missing_skills'') (validate_list L d ''recommendations'') cats"
  using assms
  by (auto simp: validate_result_structure_def split: pyval.splits sum.splits)

lemma validated_categories:
  assumes "validate_result_structure L v = Inr r"
  shows "category_keys r = Some categories"
    and "c \<in> set categories \<Longrightarrow> score_in_range (category_value r c)"
    and "c \<in> set categories \<Longrightarrow> category_value v c = None \<Longrightarrow> category_value r c = Some (PInt 0)"
proof -
  from assms obtain d s cats where v: "v = PDict d"
    and cats: "validate_category_scores d = Inr cats"
    and r: "r = match_result s (validate_list L d ''matching_skills'')
           (validate_list L d ''missing_skills'') (validate_list L d ''recommendations'') cats"
    by (rule validate_result_structure_Inr)
  have keys: "map fst cats = categories"
    using cats by (rule validate_category_scores_keys)
  show "category_keys r = Some categories"
    by (simp add: r category_keys_match_result keys)
  have distinct: "distinct (map fst cats)"
    by (simp add: keys categories_def)
  {
    assume c: "c \<in> set categories"
    then have "c \<in> fst ` set cats"
      using keys by (metis list.set_map)
    then obtain x where x: "(c, x) \<in> set cats"
      by auto
    then have m: "map_of cats c = Some x"
      using distinct by simp
    have "0 \<le> x \<and> x \<le> 100"
      using validate_category_scores_range [OF cats x] by simp
    then show "score_in_range (category_value r c)"
      by (simp add: r category_value_match_result m score_in_range_def)
    assume none: "category_value v c = None"
    have "x = 0"
    proof (cases "dict_get d ''category_scores''")
      case None
      with cats x show ?thesis
        by (auto simp: validate_category_scores_def)
    next
      case (Some w)
      show ?thesis
      proof (cases w)
        case (PDict cs)
        with Some none v have "dict_get cs c = None"
          by (simp add: category_value_def field_def)
        moreover from Some PDict cats have "validate_categories cs categories = Inr cats"
          by (simp add: validate_category_scores_def)
        ultimately show ?thesis
          using x validate_categories_default by blast
      qed (use Some cats x in \<open>auto simp: validate_category_scores_def\<close>)
    qed
    then show "category_value r c = Some (PInt 0)"
      by (simp add: r category_value_match_result m)
  }
qed

subsection \<open>\<^verbatim>\<open>compare_resume_jd\<close>\<close>

lemma compare_resume_jd_cases:
  "(\<exists>m. fst (compare_resume_jd L P resume_text jd_text) = error_response m)
   \<or> (\<exists>t. generate_content P (match_prompt resume_text jd_text) = Inr t
          \<and> validate_result_structure L (parse_gemini_response_jd L t)
              = Inr (fst (compare_resume_jd L P resume_text jd_text)))"
proof (cases "key_missing P \<or> length resume_text < 50 \<or> length jd_text < 50")
  case True
  then have "\<exists>m. fst (compare_resume_jd L P resume_text jd_text) = error_response m"
    by (auto simp: compare_resume_jd_def)
  then show ?thesis ..
next
  case False
  show ?thesis
  proof (cases "model_error P")
    case (Some m)
    with False show ?thesis
      by (simp add: compare_resume_jd_def) blast
  next
    case None
    show ?thesis
    proof (cases "generate_content P (match_prompt resume_text jd_text)")
      case (Inl e)
      with False None show ?thesis
        by (simp add: compare_resume_jd_def) blast
    next
      case (Inr t)
      show ?thesis
      proof (cases "validate_result_structure L (parse_gemini_response_jd L t)")
        case (Inl e)
        with False None Inr show ?thesis
          by (simp add: compare_resume_jd_def) blast
      next
        case r: (Inr r)
        with False None Inr show ?thesis
          by (simp add: compare_resume_jd_def)
      qed
    qed
  qed
qed

text \<open>
  C3. The raw text of the specification's example, normalized and then validated, gives
  the score 100, the matching skill \<open>Go\<close>, no missing skill, no recommendation, and
  the five categories with 100 for \<open>Technical Skills\<close> and 0 for the others.
\<close>

theorem example_normalize_validate:
  \<open>validate_result_structure L
     (parse_gemini_response_jd L
        ''Sure! ```json\<newline>{"score": 105, "matching_skills": ["Go"], "category_scores": {"Technical Skills": 200}}\<newline>```'')
   = Inr (PDict [(''score'', PInt 100),
                 (''matching_skills'', PList [PStr ''Go'']),
                 (''missing_skills'', PList []),
                 (''recommendations'', PList []),
                 (''category_scores'',
                    PDict [(''Technical Skills'', PInt 100), (''Experience'', PInt 0),
                           (''Education'', PInt 0), (''Soft Skills'', PInt 0),
                           (''Industry Knowledge'', PInt 0)])])\<close>
  by code_simp

text \<open>
  C4. Whatever the model answers and whichever branch \<^verbatim>\<open>compare_resume_jd\<close> takes, the
  \<^verbatim>\<open>category_scores\<close> of its result has exactly the five categories as keys, each with
  an integer from 0 to 100, and a category that the normalized response of the model
  does not supply has the value 0.
\<close>

theorem compare_resume_jd_category_scores:
  "category_keys (fst (compare_resume_jd L P resume_text jd_text)) = Some categories
   \<and> (\<forall>c \<in> set categories.
        score_in_range (category_value (fst (compare_resume_jd L P resume_text jd_text)) c))
   \<and> (\<forall>c \<in> set categories.
        supplied_category L P resume_text jd_text c = None \<longrightarrow>
        category_value (fst (compare_resume_jd L P resume_text jd_text)) c = Some (PInt 0))"
proof -
  let ?r = "fst (compare_resume_jd L P resume_text jd_text)"
  from compare_resume_jd_cases [of L P resume_text jd_text]
  consider (err) m where "?r = error_response m"
    | (ok) t where "generate_content P (match_prompt resume_text jd_text) = Inr t"
        "validate_result_structure L (parse_gemini_response_jd L t) = Inr ?r"
    by blast
  then show ?thesis
  proof cases
    case err
    have "score_in_range (category_value (error_response m) c)" if "c \<in> set categories" for c
      using that by (simp add: category_value_error_response score_in_range_def)
    then show ?thesis
      using err by (simp add: category_keys_error_response category_value_error_response)
  next
    case ok
    have "supplied_category L P resume_text jd_text c
          = category_value (parse_gemini_response_jd L t) c" for c
      by (simp add: supplied_category_def ok(1))
    then show ?thesis
      using validated_categories [OF ok(2)] by simp
  qed
qed

theorem compare_resume_jd_category_scores_witness:
  \<open>category_keys (fst (compare_resume_jd idle_lib
       (answering ''{"score": 70, "category_scores": {"Experience": 150, "Other": 3}}'')
       long_text long_text)) = Some categories
   \<and> ''Experience'' \<in> set categories
   \<and> score_in_range (category_value (fst (compare_resume_jd idle_lib
       (answering ''{"score": 70, "category_scores": {"Experience": 150, "Other": 3}}'')
       long_text long_text)) ''Experience'')
   \<and> ''Education'' \<in> set categories
   \<and> supplied_category idle_lib
       (answering ''{"score": 70, "category_scores": {"Experience": 150, "Other": 3}}'')
       long_text long_text ''Education'' = None
   \<and> category_value (fst (compare_resume_jd idle_lib
       (answering ''{"score": 70, "category_scores": {"Experience": 150, "Other": 3}}'')
       long_text long_text)) ''Education'' = Some (PInt 0)\<close>
proof -
  let ?P = \<open>answering ''{"score": 70, "category_scores": {"Experience": 150, "Other": 3}}''\<close>
  have c1: "''Experience'' \<in> set categories" and c2: "''Education'' \<in> set categories"
    by (simp_all add: categories_def)
  have none: "supplied_category idle_lib ?P long_text long_text ''Education'' = None"
    by code_simp
  show ?thesis
    using compare_resume_jd_category_scores [of idle_lib ?P long_text long_text] c1 c2 none
    by blast
qed

text \<open>
  C5. The validator raises on a mapping that \<^verbatim>\<open>json.loads\<close> can return: for the
  response \<^verbatim>\<open>{"score": NaN}\<close> the score is the float NaN, and \<^verbatim>\<open>int\<close> of it raises
  \<^verbatim>\<open>ValueError\<close>.
\<close>

theorem validate_result_structure_raises_on_nan:
  \<open>json_loads L ''{"score": NaN}'' = Some (PDict [(''score'', PFloat NaN)])
   \<and> validate_result_structure L (PDict [(''score'', PFloat NaN)])
       = Inl (ValueError ''cannot convert float NaN to integer'')\<close>
  by code_simp

text \<open>
  C7. A score that is numeric is not always clamped: for the response
  \<^verbatim>\<open>{"score": Infinity}\<close> the score is the float infinity, which lies above 100, and the
  validator raises \<^verbatim>\<open>OverflowError\<close> instead of returning 100.
\<close>

theorem validate_score_raises_on_infinity:
  \<open>json_loads L ''{"score": Infinity}'' = Some (PDict [(''score'', PFloat PosInf)])
   \<and> validate_score [(''score'', PFloat PosInf)]
       = Inl (OverflowError ''cannot convert float infinity to integer'')
   \<and> validate_result_structure L (PDict [(''score'', PFloat PosInf)])
       = Inl (OverflowError ''cannot convert float infinity to integer'')\<close>
  by code_simp

text \<open>
  For every other score the validator does what C7 says: an integer, a truth value or a
  finite float is truncated towards zero and clamped to the range from 0 to 100, and a
  score that is absent or not a number gives 0.
\<close>

lemma validate_score_int:
  "dict_get d ''score'' = Some (PInt n) \<Longrightarrow> validate_score d = Inr (min 100 (max 0 n))"
  by (simp add: validate_score_def clamp_score_def)

lemma validate_score_finite:
  "dict_get d ''score'' = Some (PFloat (Finite q)) \<Longrightarrow>
     validate_score d = Inr (min 100 (max 0 (trunc_rat q)))"
  by (simp add: validate_score_def clamp_score_def)

lemma validate_score_bool:
  "dict_get d ''score'' = Some (PBool b) \<Longrightarrow> validate_score d = Inr (if b then 1 else 0)"
  by (simp add: validate_score_def clamp_score_def)

lemma validate_score_default:
  "dict_get d ''score'' = None \<or> (\<exists>v. dict_get d ''score'' = Some v \<and> as_number v = None) \<Longrightarrow>
     validate_score d = Inr 0"
  by (auto simp: validate_score_def)

subsection \<open>Conformant objects and idempotence\<close>

lemma map_PStr_py_str: "list_all is_str items \<Longrightarrow> map (PStr \<circ> py_str L) items = items"
  by (induction items) (auto simp: is_str_def py_str_def split: pyval.splits)

lemma validate_list_conformant:
  assumes "string_list (dict_get d f)"
  shows "dict_get d f = Some (PList (map PStr (validate_list L d f)))"
proof -
  from assms obtain items where items: "dict_get d f = Some (PList items)"
    and len: "length items \<le> 20" and strs: "list_all is_str items"
    by (auto simp: string_list_def split: option.splits pyval.splits)
  have "map PStr (take 20 (map (py_str L) items)) = items"
    using len map_PStr_py_str [OF strs, of L] by (simp add: take_map [symmetric])
  then show ?thesis
    by (simp add: items validate_list_def)
qed

lemma validate_score_conformant:
  assumes "score_in_range (dict_get d ''score'')"
  shows "\<exists>s. dict_get d ''score'' = Some (PInt s) \<and> validate_score d = Inr s"
  using assms
  by (auto simp: score_in_range_def validate_score_def clamp_score_def
           split: option.splits pyval.splits)

lemma validate_categories_conformant:
  "list_all (\<lambda>c. score_in_range (dict_get cs c)) ks \<Longrightarrow>
     \<exists>cats. validate_categories cs ks = Inr cats \<and> map fst cats = ks
        \<and> (\<forall>p \<in> set cats. dict_get cs (fst p) = Some (PInt (snd p)))"
proof (induction ks)
  case Nil
  then show ?case by simp
next
  case (Cons k ks)
  then obtain cats where cats: "validate_categories cs ks = Inr cats" "map fst cats = ks"
    "\<forall>p \<in> set cats. dict_get cs (fst p) = Some (PInt (snd p))"
    by auto
  from Cons.prems obtain x where x: "dict_get cs k = Some (PInt x)" "0 \<le> x" "x \<le> 100"
    by (auto simp: score_in_range_def split: option.splits pyval.splits)
  then have "validate_categories cs (k # ks) = Inr ((k, x) # cats)"
    by (simp add: cats clamp_score_def)
  with cats x show ?case by simp
qed

lemma dict_get_category_pairs:
  assumes "distinct (map fst cats)" "(c, x) \<in> set cats"
  shows "dict_get (map (\<lambda>(c, x). (c, PInt x)) cats) c = Some (PInt x)"
proof -
  have "map_of (map (\<lambda>(c, x). (c, PInt x)) cats) c = map_option PInt (map_of cats c)"
    by (induction cats) auto
  then show ?thesis
    using assms by (simp add: dict_get_def)
qed

lemma validate_categories_own:
  "(\<forall>p \<in> set ys. dict_get cs (fst p) = Some (PInt (snd p)) \<and> 0 \<le> snd p \<and> snd p \<le> 100) \<Longrightarrow>
     validate_categories cs (map fst ys) = Inr ys"
  by (induction ys) (auto simp: clamp_score_def)

lemma validate_result_structure_fixpoint:
  assumes s: "0 \<le> s" "s \<le> 100"
    and len: "length a \<le> 20" "length b \<le> 20" "length c \<le> 20"
    and keys: "map fst cats = categories"
    and range: "\<forall>p \<in> set cats. 0 \<le> snd p \<and> snd p \<le> 100"
  shows "validate_result_structure L (match_result s a b c cats)
           = Inr (match_result s a b c cats)"
proof -
  let ?d = "[(''score'', PInt s),
            (''matching_skills'', PList (map PStr a)),
            (''missing_skills'', PList (map PStr b)),
            (''recommendations'', PList (map PStr c)),
            (''category_scores'', PDict (map (\<lambda>(c, x). (c, PInt x)) cats))]"
  have score: "validate_score ?d = Inr s"
    using s by (simp add: validate_score_def dict_get_def clamp_score_def)
  have str: "map (py_str L \<circ> PStr) xs = xs" for xs
    by (induction xs) (auto simp: py_str_def)
  have lists: "validate_list L ?d ''matching_skills'' = a"
    "validate_list L ?d ''missing_skills'' = b"
    "validate_list L ?d ''recommendations'' = c"
    using len by (simp_all add: validate_list_def dict_get_def str)
  have distinct: "distinct (map fst cats)"
    by (simp add: keys categories_def)
  have "\<forall>p \<in> set cats. dict_get (map (\<lambda>(c, x). (c, PInt x)) cats) (fst p) = Some (PInt (snd p))
          \<and> 0 \<le> snd p \<and> snd p \<le> 100"
    using range dict_get_category_pairs [OF distinct] by (metis prod.collapse)
  then have "validate_categories (map (\<lambda>(c, x). (c, PInt x)) cats) (map fst cats) = Inr cats"
    by (rule validate_categories_own)
  then have cats: "validate_category_scores ?d = Inr cats"
    by (simp add: validate_category_scores_def dict_get_def keys)
  show ?thesis
    unfolding validate_result_structure_def match_result_def
    using score lists cats by simp
qed

lemma validate_result_structure_idempotent:
  assumes "validate_result_structure L x = Inr v"
  shows "validate_result_structure L v = Inr v"
proof -
  from assms obtain d s cats where s: "validate_score d = Inr s"
    and cats: "validate_category_scores d = Inr cats"
    and v: "v = match_result s (validate_list L d ''matching_skills'')
           (validate_list L d ''missing_skills'') (validate_list L d ''recommendations'') cats"
    by (rule validate_result_structure_Inr)
  have len: "length (validate_list L d f) \<le> 20" for f
    by (simp add: validate_list_def split: option.splits pyval.splits)
  show ?thesis
    unfolding v
    using validate_score_range [OF s] len validate_category_scores_keys [OF cats]
      validate_category_scores_range [OF cats]
    by (intro validate_result_structure_fixpoint) auto
qed


lemma equal_results_conformant:
  assumes "conformant d"
  shows "\<exists>v. validate_result_structure L (PDict d) = Inr v \<and> equal_results v (PDict d)"
proof -
  from assms have keys: "set (dict_keys d) = {''score'', ''matching_skills'',
      ''missing_skills'', ''recommendations'', ''category_scores''}"
    and lists: "string_list (dict_get d ''matching_skills'')"
      "string_list (dict_get d ''missing_skills'')"
      "string_list (dict_get d ''recommendations'')"
    by (simp_all add: conformant_def)
  from assms obtain s where s: "dict_get d ''score'' = Some (PInt s)" "validate_score d = Inr s"
    using validate_score_conformant by (auto simp: conformant_def)
  from assms obtain cs where cs: "dict_get d ''category_scores'' = Some (PDict cs)"
    and cs_keys: "set (dict_keys cs) = set categories"
    and cs_vals: "list_all (\<lambda>c. score_in_range (dict_get cs c)) categories"
    by (auto simp: conformant_def split: option.splits pyval.splits)
  from validate_categories_conformant [OF cs_vals] obtain cats where
    cats: "validate_categories cs categories = Inr cats" "map fst cats = categories"
      "\<forall>p \<in> set cats. dict_get cs (fst p) = Some (PInt (snd p))"
    by blast
  let ?a = "validate_list L d ''matching_skills''"
  let ?b = "validate_list L d ''missing_skills''"
  let ?c = "validate_list L d ''recommendations''"
  let ?x = "map (\<lambda>(c, x). (c, PInt x)) cats"
  have v: "validate_result_structure L (PDict d) = Inr (match_result s ?a ?b ?c cats)"
    by (simp add: validate_result_structure_def s cs cats validate_category_scores_def)
  have distinct: "distinct (map fst cats)"
    by (simp add: cats(2) categories_def)
  have x_keys: "dict_keys ?x = categories"
    by (simp add: dict_keys_def comp_def case_prod_unfold cats(2))
  have "dict_get ?x k = dict_get cs k" if "k \<in> set categories" for k
  proof -
    from that obtain p where p: "p \<in> set cats" "fst p = k"
      using cats(2) by (metis imageE list.set_map)
    then have "dict_get ?x k = Some (PInt (snd p))"
      using dict_get_category_pairs [OF distinct, of k "snd p"] by (metis prod.collapse)
    with cats(3) p show ?thesis by auto
  qed
  then have same: "same_mapping ?x cs"
    by (simp add: same_mapping_def x_keys cs_keys list_all_iff)
  have "equal_results (match_result s ?a ?b ?c cats) (PDict d)"
    unfolding equal_results_def match_result_def
    using keys s(1) cs same validate_list_conformant [OF lists(1), of L]
      validate_list_conformant [OF lists(2), of L] validate_list_conformant [OF lists(3), of L]
    by (simp add: dict_keys_def dict_get_def)
  with v show ?thesis by blast
qed

lemma json_candidate_object:
  "startswith (strip text) ''{'' \<Longrightarrow> endswith (strip text) ''}'' \<Longrightarrow>
     json_candidate text = strip text"
  by (simp add: json_candidate_def Let_def)

lemma parse_gemini_response_jd_object:
  assumes "fenced_json L text = None" "startswith (strip text) ''{''"
    "endswith (strip text) ''}''" "json_loads L (strip text) = Some v"
  shows "parse_gemini_response_jd L text = v"
  using assms by (simp add: parse_gemini_response_jd_def json_candidate_object)


text \<open>
  C9. A response that is exactly a JSON object of the target shape is not always returned
  as it is: the normalizer looks for a fenced block first, also inside the strings of the
  object. Here the first matching skill holds a fence around \<^verbatim>\<open>{ }\<close>, and the
  normalizer returns the empty object.
\<close>

theorem fence_in_object_counterexample:
  \<open>startswith (strip fence_in_object) ''{'' \<and> endswith (strip fence_in_object) ''}''
   \<and> json_loads idle_lib (strip fence_in_object)
       = Some (PDict [(''score'', PInt 50),
                      (''matching_skills'', PList [PStr ''```json { } ```'']),
                      (''missing_skills'', PList []),
                      (''recommendations'', PList []),
                      (''category_scores'',
                         PDict [(''Technical Skills'', PInt 1), (''Experience'', PInt 2),
                                (''Education'', PInt 3), (''Soft Skills'', PInt 4),
                                (''Industry Knowledge'', PInt 5)])])
   \<and> conformant [(''score'', PInt 50),
                      (''matching_skills'', PList [PStr ''```json { } ```'']),
                      (''missing_skills'', PList []),
                      (''recommendations'', PList []),
                      (''category_scores'',
                         PDict [(''Technical Skills'', PInt 1), (''Experience'', PInt 2),
                                (''Education'', PInt 3), (''Soft Skills'', PInt 4),
                                (''Industry Knowledge'', PInt 5)])]
   \<and> parse_gemini_response_jd idle_lib fence_in_object = PDict []\<close>
  by code_simp

text \<open>
  C9, amended. When the stripped response is exactly a JSON object of the target shape
  and the pattern for a fenced block finds nothing in it that decodes, the normalizer
  returns that object and the validator maps it to an equal result. The validator is
  idempotent: applied to its own result it returns that result, and where it raises
  there is no second application.
\<close>

theorem conformant_object_passes_through:
  assumes "startswith (strip text) ''{''" and "endswith (strip text) ''}''"
    and "json_loads L (strip text) = Some (PDict d)" and "conformant d"
    and "fenced_json L text = None"
  shows "parse_gemini_response_jd L text = PDict d
    \<and> (\<exists>v. validate_result_structure L (parse_gemini_response_jd L text) = Inr v
            \<and> equal_results v (PDict d))
    \<and> (case validate_result_structure L x of
          Inl e \<Rightarrow> Inl e
        | Inr w \<Rightarrow> validate_result_structure L w) = validate_result_structure L x"
proof -
  have p: "parse_gemini_response_jd L text = PDict d"
    using assms(5,1,2,3) by (rule parse_gemini_response_jd_object)
  have twice: "(case validate_result_structure L x of
          Inl e \<Rightarrow> Inl e
        | Inr w \<Rightarrow> validate_result_structure L w) = validate_result_structure L x"
    by (cases "validate_result_structure L x")
       (simp_all add: validate_result_structure_idempotent)
  show ?thesis
    using p equal_results_conformant [OF assms(4), of L] twice
    by simp
qed

theorem conformant_object_passes_through_witness:
  \<open>startswith (strip plain_object) ''{'' \<and> endswith (strip plain_object) ''}''
   \<and> json_loads idle_lib (strip plain_object)
       = Some (PDict [(''category_scores'',
                         PDict [(''Experience'', PInt 2), (''Technical Skills'', PInt 1),
                                (''Education'', PInt 3), (''Soft Skills'', PInt 4),
                                (''Industry Knowledge'', PInt 5)]),
                      (''score'', PInt 50),
                      (''matching_skills'', PList [PStr ''Go'']),
                      (''missing_skills'', PList []),
                      (''recommendations'', PList [PStr ''Learn AWS''])])
   \<and> conformant [(''category_scores'',
                         PDict [(''Experience'', PInt 2), (''Technical Skills'', PInt 1),
                                (''Education'', PInt 3), (''Soft Skills'', PInt 4),
                                (''Industry Knowledge'', PInt 5)]),
                      (''score'', PInt 50),
                      (''matching_skills'', PList [PStr ''Go'']),
                      (''missing_skills'', PList []),
                      (''recommendations'', PList [PStr ''Learn AWS''])]
   \<and> fenced_json idle_lib plain_object = None
   \<and> parse_gemini_response_jd idle_lib plain_object
       = PDict [(''category_scores'',
                         PDict [(''Experience'', PInt 2), (''Technical Skills'', PInt 1),
                                (''Education'', PInt 3), (''Soft Skills'', PInt 4),
                                (''Industry Knowledge'', PInt 5)]),
                      (''score'', PInt 50),
                      (''matching_skills'', PList [PStr ''Go'']),
                      (''missing_skills'', PList []),
                      (''recommendations'', PList [PStr ''Learn AWS''])]
   \<and> validate_result_structure idle_lib (PDict [(''score'', PInt 105)])
       = Inr (match_result 100 [] [] [] 
           [(''Technical Skills'', 0), (''Experience'', 0), (''Education'', 0),
            (''Soft Skills'', 0), (''Industry Knowledge'', 0)])
   \<and> validate_result_structure idle_lib (match_result 100 [] [] [] 
           [(''Technical Skills'', 0), (''Experience'', 0), (''Education'', 0),
            (''Soft Skills'', 0), (''Industry Knowledge'', 0)])
       = Inr (match_result 100 [] [] [] 
           [(''Technical Skills'', 0), (''Experience'', 0), (''Education'', 0),
            (''Soft Skills'', 0), (''Industry Knowledge'', 0)])\<close>
proof -
  let ?d = "[(''category_scores'',
                         PDict [(''Experience'', PInt 2), (''Technical Skills'', PInt 1),
                                (''Education'', PInt 3), (''Soft Skills'', PInt 4),
                                (''Industry Knowledge'', PInt 5)]),
                      (''score'', PInt 50),
                      (''matching_skills'', PList [PStr ''Go'']),
                      (''missing_skills'', PList []),
                      (''recommendations'', PList [PStr ''Learn AWS''])]"
  have h1: "startswith (strip plain_object) ''{''" by code_simp
  have h2: "endswith (strip plain_object) ''}''" by code_simp
  have h3: "json_loads idle_lib (strip plain_object) = Some (PDict ?d)" by code_simp
  have h4: "conformant ?d" by code_simp
  have h5: "fenced_json idle_lib plain_object = None" by code_simp
  have h6: "validate_result_structure idle_lib (PDict [(''score'', PInt 105)])
       = Inr (match_result 100 [] [] [] 
           [(''Technical Skills'', 0), (''Experience'', 0), (''Education'', 0),
            (''Soft Skills'', 0), (''Industry Knowledge'', 0)])" by code_simp
  show ?thesis
    using conformant_object_passes_through [OF h1 h2 h3 h4 h5,
        of "PDict [(''score'', PInt 105)]"]
      h1 h2 h3 h4 h5 h6
    by simp
qed

section \<open>Properties of the analysis flow\<close>

subsection \<open>The strict parse\<close>

lemma dict_set_new: "\<not> dict_has d k \<Longrightarrow> dict_set d k v = d @ [(k, v)]"
  by (induction d) (auto simp: dict_has_def dict_get_def)

lemma dict_has_append: "dict_has (d @ e) k = (dict_has d k \<or> dict_has e k)"
  by (auto simp: dict_has_def dict_get_def map_add_def split: option.splits)

lemma dict_get_append:
  "dict_get (d @ e) k = (case dict_get d k of None \<Rightarrow> dict_get e k | Some v \<Rightarrow> Some v)"
  unfolding dict_get_def by (simp add: map_add_def)

text \<open>The entries that the loop over the required fields adds to a dictionary.\<close>

lemma ensure_fields_dict:
  "distinct fs \<Longrightarrow>
     ensure_fields (PDict d) fs
       = Some (PDict (d @ map (\<lambda>f. (f, field_default f)) (filter (\<lambda>f. \<not> dict_has d f) fs)))"
proof (induction fs arbitrary: d)
  case Nil
  then show ?case by simp
next
  case (Cons f fs)
  show ?case
  proof (cases "dict_has d f")
    case True
    with Cons show ?thesis by simp
  next
    case False
    have same: "filter (\<lambda>g. \<not> dict_has (d @ [(f, field_default f)]) g) fs
                = filter (\<lambda>g. \<not> dict_has d g) fs"
      using Cons.prems
      by (intro filter_cong) (auto simp: dict_has_append dict_has_def dict_get_def)
    from False Cons show ?thesis
      by (simp add: dict_set_new same)
  qed
qed

lemma strict_parse_dict:
  assumes "json_loads L (strict_candidate t) = Some (PDict d)"
  shows "strict_parse L t
     = Some (PDict (d @ map (\<lambda>f. (f, field_default f))
                           (filter (\<lambda>f. \<not> dict_has d f) required_fields)))"
proof -
  have "distinct required_fields"
    by (simp add: required_fields_def)
  then show ?thesis
    by (simp add: strict_parse_def assms ensure_fields_dict)
qed

lemma field_backfilled:
  "field (PDict (d @ map (\<lambda>f. (f, field_default f)) (filter (\<lambda>f. \<not> dict_has d f) fs))) k
     = (case dict_get d k of
          Some v \<Rightarrow> Some v
        | None \<Rightarrow> if k \<in> set fs then Some (field_default k) else None)"
proof -
  have "dict_get (map (\<lambda>f. (f, field_default f)) (filter (\<lambda>f. \<not> dict_has d f) fs)) k
        = (if k \<in> set fs \<and> \<not> dict_has d k then Some (field_default k) else None)"
    unfolding dict_get_def by (induction fs) auto
  then show ?thesis
    by (auto simp: field_def dict_get_append dict_has_def split: option.splits)
qed

subsection \<open>The heuristic fallback\<close>

lemma raw_analysis_append_item [simp]:
  "raw_analysis (append_item section item result) = raw_analysis result"
  by (simp add: append_item_def)

lemma process_line_raw:
  "process_line st l = Inr st' \<Longrightarrow> raw_analysis (fst st') = raw_analysis (fst st)"
  by (auto simp: process_line_def Let_def split: if_splits option.splits)

lemma process_lines_raw:
  "process_lines st ls = Inr st' \<Longrightarrow> raw_analysis (fst st') = raw_analysis (fst st)"
proof (induction ls arbitrary: st)
  case Nil
  then show ?case by simp
next
  case (Cons l ls)
  then show ?case
    by (auto split: sum.splits dest: process_line_raw)
qed

lemma raw_analysis_positional_fallback [simp]:
  "raw_analysis (positional_fallback t result) = raw_analysis result"
  by (simp add: positional_fallback_def Let_def)

lemma fill_placeholders_nonempty:
  "strengths (fill_placeholders a) \<noteq> []"
  "areas_of_improvement (fill_placeholders a) \<noteq> []"
  "project_recommendations (fill_placeholders a) \<noteq> []"
  "career_roadmap (fill_placeholders a) \<noteq> []"
  "recommended_courses (fill_placeholders a) \<noteq> []"
  "raw_analysis (fill_placeholders a) = raw_analysis a"
  by (simp_all add: fill_placeholders_def Let_def)

lemma fallback_result:
  assumes "parse_gemini_response_analyzer t = Inr r"
  obtains a where "r = analysis_dict (fill_placeholders a)" "raw_analysis a = t"
proof -
  let ?init = "\<lparr>strengths = [], areas_of_improvement = [], project_recommendations = [],
                 career_roadmap = [], recommended_courses = [], raw_analysis = t\<rparr>"
  from assms obtain a cur where run: "process_lines (?init, None) (split_lines t []) = Inr (a, cur)"
    and r: "r = analysis_dict (fill_placeholders
                  (if nothing_found a then positional_fallback t a else a))"
    by (auto simp: parse_gemini_response_analyzer_def Let_def split: sum.splits)
  from process_lines_raw [OF run] have "raw_analysis a = t"
    by simp
  then have "raw_analysis (if nothing_found a then positional_fallback t a else a) = t"
    by simp
  with r show ?thesis
    by (rule that)
qed

lemma fallback_fields:
  assumes "parse_gemini_response_analyzer t = Inr r"
  shows "nonempty_list (field r ''strengths'')"
    and "nonempty_list (field r ''areas_of_improvement'')"
    and "nonempty_list (field r ''project_recommendations'')"
    and "nonempty_text (field r ''career_roadmap'')"
    and "nonempty_list (field r ''recommended_courses'')"
    and "field r ''raw_analysis'' = Some (PStr t)"
proof -
  from assms obtain a where r: "r = analysis_dict (fill_placeholders a)" and raw: "raw_analysis a = t"
    by (rule fallback_result)
  show "nonempty_list (field r ''strengths'')"
    and "nonempty_list (field r ''areas_of_improvement'')"
    and "nonempty_list (field r ''project_recommendations'')"
    and "nonempty_text (field r ''career_roadmap'')"
    and "nonempty_list (field r ''recommended_courses'')"
    and "field r ''raw_analysis'' = Some (PStr t)"
    using fill_placeholders_nonempty [of a] raw
    by (simp_all add: r analysis_dict_def field_def dict_get_def nonempty_list_def
          nonempty_text_def)
qed

subsection \<open>\<^verbatim>\<open>analyze_resume\<close>\<close>

lemma analyze_resume_answered:
  assumes "\<not> key_missing P" "model_error P = None" "50 \<le> length resume_text"
    "generate_content P (analysis_prompt resume_text) = Inr t"
  shows "fst (analyze_resume L P resume_text)
     = (case strict_parse L t of
          Some result \<Rightarrow> result
        | None \<Rightarrow> (case parse_gemini_response_analyzer t of
                     Inl e \<Rightarrow> api_error_result e
                   | Inr result \<Rightarrow> result))"
  using assms
  by (simp add: analyze_resume_def Let_def split: option.split sum.split)

lemma fields_error_result:
  "nonempty_list (field (error_result msg s a p roadmap c) ''strengths'') = (s \<noteq> [])"
  "nonempty_list (field (error_result msg s a p roadmap c) ''areas_of_improvement'') = (a \<noteq> [])"
  "nonempty_list (field (error_result msg s a p roadmap c) ''project_recommendations'') = (p \<noteq> [])"
  "nonempty_list (field (error_result msg s a p roadmap c) ''recommended_courses'') = (c \<noteq> [])"
  "nonempty_text (field (error_result msg s a p roadmap c) ''career_roadmap'') = (roadmap \<noteq> [])"
  "field (error_result msg s a [] roadmap c) ''project_recommendations'' = Some (PList [])"
  "field (error_result msg s a p roadmap []) ''recommended_courses'' = Some (PList [])"
  "field (error_result msg [] a p roadmap c) ''strengths'' = Some (PList [])"
  "field (error_result msg s [] p roadmap c) ''areas_of_improvement'' = Some (PList [])"
  by (simp_all add: error_result_def field_def dict_get_def nonempty_list_def nonempty_text_def)

lemma roadmap_error_result:
  "roadmap \<noteq> [] \<Longrightarrow> nonempty_text (field (error_result msg s a p roadmap c) ''career_roadmap'')"
  by (simp add: error_result_def field_def dict_get_def nonempty_text_def)

lemma roadmap_api_error_result:
  "nonempty_text (field (api_error_result e) ''career_roadmap'')"
  by (simp add: api_error_result_def roadmap_error_result)


text \<open>
  C1. A parse failure does reach the \<^verbatim>\<open>error\<close> entry. For the response
  \<^verbatim>\<open>Strengths:\<close> followed by the line \<^verbatim>\<open>1. Python\<close> the strict parse fails, the numbered
  line of the section reaches \<^verbatim>\<open>re.match\<close> in the fallback, the fallback raises
  \<^verbatim>\<open>NameError\<close>, and the outer handler returns the error result with that message.
\<close>

theorem fallback_name_error:
  \<open>strict_parse L ''Strengths:\<newline>1. Python'' = None
   \<and> parse_gemini_response_analyzer ''Strengths:\<newline>1. Python''
       = Inl (NameError ''name 're' is not defined'')
   \<and> fst (analyze_resume L (answering ''Strengths:\<newline>1. Python'') long_text)
       = error_result ''name 're' is not defined'' [''Error occurred during analysis'']
           [''Try again later''] []
           ''Error occurred during analysis: name 're' is not defined'' []\<close>
  by code_simp

text \<open>
  C2. A list field can be empty: for the response \<^verbatim>\<open>{}\<close> the strict parse succeeds and
  every missing list field is back-filled with the empty list.
\<close>

theorem empty_object_counterexample:
  \<open>fst (analyze_resume idle_lib (answering ''{}'') long_text)
     = PDict [(''strengths'', PList []),
              (''areas_of_improvement'', PList []),
              (''project_recommendations'', PList []),
              (''career_roadmap'', PStr ''No information provided''),
              (''recommended_courses'', PList [])]
   \<and> \<not> nonempty_list (field (fst (analyze_resume idle_lib (answering ''{}'') long_text))
                          ''strengths'')\<close>
  by code_simp

text \<open>
  C2, amended. All four list fields are non-empty lists and \<^verbatim>\<open>career_roadmap\<close> is a
  non-empty string when the key is missing, and when the strict parse fails and the
  heuristic fallback returns. In the too-short result and in the result of the outer
  handler, \<^verbatim>\<open>strengths\<close> and \<^verbatim>\<open>areas_of_improvement\<close> are non-empty lists and
  \<^verbatim>\<open>career_roadmap\<close> is a non-empty string, while \<^verbatim>\<open>project_recommendations\<close> and
  \<^verbatim>\<open>recommended_courses\<close> are empty lists. When the model cannot be constructed,
  \<^verbatim>\<open>career_roadmap\<close> is a non-empty string and the four lists are empty. When the strict
  parse decodes a JSON object, a list field of the result is a non-empty list exactly
  when the object has a non-empty list there, and \<^verbatim>\<open>career_roadmap\<close> is a non-empty
  string exactly when the object lacks it or has a non-empty string there.
\<close>

theorem analyze_resume_fields_nonempty:
  "(key_missing P \<longrightarrow>
        nonempty_list (field (fst (analyze_resume L P resume_text)) ''strengths'')
        \<and> nonempty_list (field (fst (analyze_resume L P resume_text)) ''areas_of_improvement'')
        \<and> nonempty_list (field (fst (analyze_resume L P resume_text)) ''project_recommendations'')
        \<and> nonempty_list (field (fst (analyze_resume L P resume_text)) ''recommended_courses'')
        \<and> nonempty_text (field (fst (analyze_resume L P resume_text)) ''career_roadmap''))
   \<and> (\<not> key_missing P \<and> model_error P = None \<and> 50 \<le> length resume_text
      \<and> generate_content P (analysis_prompt resume_text) = Inr response_text
      \<and> strict_parse L response_text = None
      \<and> parse_gemini_response_analyzer response_text = Inr r \<longrightarrow>
        fst (analyze_resume L P resume_text) = r
        \<and> nonempty_list (field r ''strengths'')
        \<and> nonempty_list (field r ''areas_of_improvement'')
        \<and> nonempty_list (field r ''project_recommendations'')
        \<and> nonempty_list (field r ''recommended_courses'')
        \<and> nonempty_text (field r ''career_roadmap''))
   \<and> (\<not> key_missing P \<and> model_error P = None
      \<and> (length resume_text < 50
           \<or> generate_content P (analysis_prompt resume_text) = Inl e
           \<or> (generate_content P (analysis_prompt resume_text) = Inr t
               \<and> strict_parse L t = None
               \<and> parse_gemini_response_analyzer t = Inl e)) \<longrightarrow>
        nonempty_list (field (fst (analyze_resume L P resume_text)) ''strengths'')
        \<and> nonempty_list (field (fst (analyze_resume L P resume_text)) ''areas_of_improvement'')
        \<and> nonempty_text (field (fst (analyze_resume L P resume_text)) ''career_roadmap'')
        \<and> field (fst (analyze_resume L P resume_text)) ''project_recommendations'' = Some (PList [])
        \<and> field (fst (analyze_resume L P resume_text)) ''recommended_courses'' = Some (PList []))
   \<and> (\<not> key_missing P \<and> model_error P = Some m \<longrightarrow>
        nonempty_text (field (fst (analyze_resume L P resume_text)) ''career_roadmap'')
        \<and> field (fst (analyze_resume L P resume_text)) ''strengths'' = Some (PList [])
        \<and> field (fst (analyze_resume L P resume_text)) ''areas_of_improvement'' = Some (PList [])
        \<and> field (fst (analyze_resume L P resume_text)) ''project_recommendations'' = Some (PList [])
        \<and> field (fst (analyze_resume L P resume_text)) ''recommended_courses'' = Some (PList []))
   \<and> (\<not> key_missing P \<and> model_error P = None \<and> 50 \<le> length resume_text
      \<and> generate_content P (analysis_prompt resume_text) = Inr u
      \<and> json_loads L (strict_candidate u) = Some (PDict d) \<longrightarrow>
        nonempty_list (field (fst (analyze_resume L P resume_text)) ''strengths'') = nonempty_list (dict_get d ''strengths'')
        \<and> nonempty_list (field (fst (analyze_resume L P resume_text)) ''areas_of_improvement'') = nonempty_list (dict_get d ''areas_of_improvement'')
        \<and> nonempty_list (field (fst (analyze_resume L P resume_text)) ''project_recommendations'') = nonempty_list (dict_get d ''project_recommendations'')
        \<and> nonempty_list (field (fst (analyze_resume L P resume_text)) ''recommended_courses'') = nonempty_list (dict_get d ''recommended_courses'')
        \<and> nonempty_text (field (fst (analyze_resume L P resume_text)) ''career_roadmap'')
            = (\<not> dict_has d ''career_roadmap''
               \<or> nonempty_text (dict_get d ''career_roadmap'')))"
proof -
  let ?R = "fst (analyze_resume L P resume_text)"
  have missing: "key_missing P \<Longrightarrow> ?R
      = error_result ''Gemini API key is not configured'' [''API key missing'']
           [''Configure Gemini API key''] [''Set up proper API configuration'']
           ''Please configure the Gemini API key to get results''
           [''API configuration course'']"
    by (simp add: analyze_resume_def)
  have part1: "key_missing P \<longrightarrow>
        nonempty_list (field (fst (analyze_resume L P resume_text)) ''strengths'')
        \<and> nonempty_list (field (fst (analyze_resume L P resume_text)) ''areas_of_improvement'')
        \<and> nonempty_list (field (fst (analyze_resume L P resume_text)) ''project_recommendations'')
        \<and> nonempty_list (field (fst (analyze_resume L P resume_text)) ''recommended_courses'')
        \<and> nonempty_text (field (fst (analyze_resume L P resume_text)) ''career_roadmap'')"
    by (auto simp: missing fields_error_result)
  have part2: "\<not> key_missing P \<and> model_error P = None \<and> 50 \<le> length resume_text
      \<and> generate_content P (analysis_prompt resume_text) = Inr response_text
      \<and> strict_parse L response_text = None
      \<and> parse_gemini_response_analyzer response_text = Inr r \<longrightarrow>
        fst (analyze_resume L P resume_text) = r
        \<and> nonempty_list (field r ''strengths'')
        \<and> nonempty_list (field r ''areas_of_improvement'')
        \<and> nonempty_list (field r ''project_recommendations'')
        \<and> nonempty_list (field r ''recommended_courses'')
        \<and> nonempty_text (field r ''career_roadmap'')"
  proof (intro impI)
    assume h: "\<not> key_missing P \<and> model_error P = None \<and> 50 \<le> length resume_text
      \<and> generate_content P (analysis_prompt resume_text) = Inr response_text
      \<and> strict_parse L response_text = None
      \<and> parse_gemini_response_analyzer response_text = Inr r"
    then have "?R = r"
      by (simp add: analyze_resume_answered)
    moreover from h have "parse_gemini_response_analyzer response_text = Inr r"
      by simp
    ultimately show "fst (analyze_resume L P resume_text) = r
        \<and> nonempty_list (field r ''strengths'')
        \<and> nonempty_list (field r ''areas_of_improvement'')
        \<and> nonempty_list (field r ''project_recommendations'')
        \<and> nonempty_list (field r ''recommended_courses'')
        \<and> nonempty_text (field r ''career_roadmap'')"
      using fallback_fields by blast
  qed
  have part3: "\<not> key_missing P \<and> model_error P = None
      \<and> (length resume_text < 50
           \<or> generate_content P (analysis_prompt resume_text) = Inl e
           \<or> (generate_content P (analysis_prompt resume_text) = Inr t
               \<and> strict_parse L t = None
               \<and> parse_gemini_response_analyzer t = Inl e)) \<longrightarrow>
        nonempty_list (field (fst (analyze_resume L P resume_text)) ''strengths'')
        \<and> nonempty_list (field (fst (analyze_resume L P resume_text)) ''areas_of_improvement'')
        \<and> nonempty_text (field (fst (analyze_resume L P resume_text)) ''career_roadmap'')
        \<and> field (fst (analyze_resume L P resume_text)) ''project_recommendations'' = Some (PList [])
        \<and> field (fst (analyze_resume L P resume_text)) ''recommended_courses'' = Some (PList [])"
  proof (intro impI)
    assume h: "\<not> key_missing P \<and> model_error P = None
      \<and> (length resume_text < 50
           \<or> generate_content P (analysis_prompt resume_text) = Inl e
           \<or> (generate_content P (analysis_prompt resume_text) = Inr t
               \<and> strict_parse L t = None
               \<and> parse_gemini_response_analyzer t = Inl e))"
    have "?R = error_result resume_too_short [''Unable to analyze - resume text too short'']
                  [''Provide a more complete resume''] []
                  ''Please provide a more detailed resume for analysis'' []
          \<or> ?R = api_error_result e"
    proof (cases "length resume_text < 50")
      case True
      with h show ?thesis
        by (simp add: analyze_resume_def)
    next
      case False
      with h have "generate_content P (analysis_prompt resume_text) = Inl e
           \<or> (generate_content P (analysis_prompt resume_text) = Inr t
               \<and> strict_parse L t = None
               \<and> parse_gemini_response_analyzer t = Inl e)"
        by blast
      then have "?R = api_error_result e"
      proof
        assume "generate_content P (analysis_prompt resume_text) = Inl e"
        with h False show ?thesis
          by (simp add: analyze_resume_def Let_def)
      next
        assume "generate_content P (analysis_prompt resume_text) = Inr t
               \<and> strict_parse L t = None
               \<and> parse_gemini_response_analyzer t = Inl e"
        with h False show ?thesis
          by (simp add: analyze_resume_answered)
      qed
      then show ?thesis ..
    qed
    then show "nonempty_list (field (fst (analyze_resume L P resume_text)) ''strengths'')
        \<and> nonempty_list (field (fst (analyze_resume L P resume_text)) ''areas_of_improvement'')
        \<and> nonempty_text (field (fst (analyze_resume L P resume_text)) ''career_roadmap'')
        \<and> field (fst (analyze_resume L P resume_text)) ''project_recommendations'' = Some (PList [])
        \<and> field (fst (analyze_resume L P resume_text)) ''recommended_courses'' = Some (PList [])"
      by (auto simp: api_error_result_def fields_error_result)
  qed
  have part4: "\<not> key_missing P \<and> model_error P = Some m \<longrightarrow>
        nonempty_text (field (fst (analyze_resume L P resume_text)) ''career_roadmap'')
        \<and> field (fst (analyze_resume L P resume_text)) ''strengths'' = Some (PList [])
        \<and> field (fst (analyze_resume L P resume_text)) ''areas_of_improvement'' = Some (PList [])
        \<and> field (fst (analyze_resume L P resume_text)) ''project_recommendations'' = Some (PList [])
        \<and> field (fst (analyze_resume L P resume_text)) ''recommended_courses'' = Some (PList [])"
    by (auto simp: analyze_resume_def fields_error_result)
  have part5: "\<not> key_missing P \<and> model_error P = None \<and> 50 \<le> length resume_text
      \<and> generate_content P (analysis_prompt resume_text) = Inr u
      \<and> json_loads L (strict_candidate u) = Some (PDict d) \<longrightarrow>
        nonempty_list (field (fst (analyze_resume L P resume_text)) ''strengths'') = nonempty_list (dict_get d ''strengths'')
        \<and> nonempty_list (field (fst (analyze_resume L P resume_text)) ''areas_of_improvement'') = nonempty_list (dict_get d ''areas_of_improvement'')
        \<and> nonempty_list (field (fst (analyze_resume L P resume_text)) ''project_recommendations'') = nonempty_list (dict_get d ''project_recommendations'')
        \<and> nonempty_list (field (fst (analyze_resume L P resume_text)) ''recommended_courses'') = nonempty_list (dict_get d ''recommended_courses'')
        \<and> nonempty_text (field (fst (analyze_resume L P resume_text)) ''career_roadmap'')
            = (\<not> dict_has d ''career_roadmap''
               \<or> nonempty_text (dict_get d ''career_roadmap''))"
  proof (intro impI)
    assume h: "\<not> key_missing P \<and> model_error P = None \<and> 50 \<le> length resume_text
      \<and> generate_content P (analysis_prompt resume_text) = Inr u
      \<and> json_loads L (strict_candidate u) = Some (PDict d)"
    then have f: "field ?R k
      = (case dict_get d k of
           Some v \<Rightarrow> Some v
         | None \<Rightarrow> if k \<in> set required_fields then Some (field_default k) else None)" for k
      by (simp add: analyze_resume_answered strict_parse_dict field_backfilled)
    show "nonempty_list (field (fst (analyze_resume L P resume_text)) ''strengths'') = nonempty_list (dict_get d ''strengths'')
        \<and> nonempty_list (field (fst (analyze_resume L P resume_text)) ''areas_of_improvement'') = nonempty_list (dict_get d ''areas_of_improvement'')
        \<and> nonempty_list (field (fst (analyze_resume L P resume_text)) ''project_recommendations'') = nonempty_list (dict_get d ''project_recommendations'')
        \<and> nonempty_list (field (fst (analyze_resume L P resume_text)) ''recommended_courses'') = nonempty_list (dict_get d ''recommended_courses'')
        \<and> nonempty_text (field (fst (analyze_resume L P resume_text)) ''career_roadmap'')
            = (\<not> dict_has d ''career_roadmap''
               \<or> nonempty_text (dict_get d ''career_roadmap''))"
      by (auto simp: f required_fields_def field_default_def dict_has_def nonempty_list_def
            nonempty_text_def split: option.splits)
  qed
  from part1 part2 part3 part4 part5 show ?thesis
    by (intro conjI)
qed

theorem analyze_resume_fields_nonempty_witness:
  \<open>key_missing unconfigured
   \<and> nonempty_list (field (fst (analyze_resume idle_lib unconfigured long_text)) ''strengths'')
   \<and> nonempty_list (field (fst (analyze_resume idle_lib unconfigured long_text)) ''areas_of_improvement'')
   \<and> nonempty_list (field (fst (analyze_resume idle_lib unconfigured long_text)) ''project_recommendations'')
   \<and> nonempty_list (field (fst (analyze_resume idle_lib unconfigured long_text)) ''recommended_courses'')
   \<and> nonempty_text (field (fst (analyze_resume idle_lib unconfigured long_text)) ''career_roadmap'')
   \<and> \<not> key_missing (answering ''Strengths:\<newline>- Strong Python skills'')
   \<and> model_error (answering ''Strengths:\<newline>- Strong Python skills'') = None
   \<and> 50 \<le> length long_text
   \<and> generate_content (answering ''Strengths:\<newline>- Strong Python skills'') (analysis_prompt long_text) = Inr ''Strengths:\<newline>- Strong Python skills''
   \<and> strict_parse idle_lib ''Strengths:\<newline>- Strong Python skills'' = None
   \<and> parse_gemini_response_analyzer ''Strengths:\<newline>- Strong Python skills''
        = Inr (PDict
            [(''strengths'', PList [PStr ''Strong Python skills'']),
             (''areas_of_improvement'',
                PList [PStr ''Could not extract areas of improvement from analysis'']),
             (''project_recommendations'',
                PList [PStr ''Could not extract project recommendations from analysis'']),
             (''career_roadmap'', PStr ''Could not extract career roadmap from analysis''),
             (''recommended_courses'',
                PList [PStr ''Could not extract recommended courses from analysis'']),
             (''raw_analysis'', PStr ''Strengths:\<newline>- Strong Python skills'')])
   \<and> nonempty_list (field (fst (analyze_resume idle_lib (answering ''Strengths:\<newline>- Strong Python skills'') long_text)) ''strengths'')
   \<and> nonempty_list (field (fst (analyze_resume idle_lib (answering ''Strengths:\<newline>- Strong Python skills'') long_text)) ''areas_of_improvement'')
   \<and> nonempty_list (field (fst (analyze_resume idle_lib (answering ''Strengths:\<newline>- Strong Python skills'') long_text)) ''project_recommendations'')
   \<and> nonempty_list (field (fst (analyze_resume idle_lib (answering ''Strengths:\<newline>- Strong Python skills'') long_text)) ''recommended_courses'')
   \<and> nonempty_text (field (fst (analyze_resume idle_lib (answering ''Strengths:\<newline>- Strong Python skills'') long_text)) ''career_roadmap'')
   \<and> \<not> key_missing (answering ''{}'')
   \<and> model_error (answering ''{}'') = None
   \<and> length ''short'' < 50
   \<and> nonempty_list (field (fst (analyze_resume idle_lib (answering ''{}'') ''short'')) ''strengths'')
   \<and> nonempty_list (field (fst (analyze_resume idle_lib (answering ''{}'') ''short'')) ''areas_of_improvement'')
   \<and> nonempty_text (field (fst (analyze_resume idle_lib (answering ''{}'') ''short'')) ''career_roadmap'')
   \<and> field (fst (analyze_resume idle_lib (answering ''{}'') ''short'')) ''project_recommendations'' = Some (PList [])
   \<and> field (fst (analyze_resume idle_lib (answering ''{}'') ''short'')) ''recommended_courses'' = Some (PList [])
   \<and> \<not> key_missing (raising ''quota'')
   \<and> model_error (raising ''quota'') = None
   \<and> generate_content (raising ''quota'') (analysis_prompt long_text) = Inl (ProviderError ''quota'')
   \<and> nonempty_list (field (fst (analyze_resume idle_lib (raising ''quota'') long_text)) ''strengths'')
   \<and> nonempty_list (field (fst (analyze_resume idle_lib (raising ''quota'') long_text)) ''areas_of_improvement'')
   \<and> nonempty_text (field (fst (analyze_resume idle_lib (raising ''quota'') long_text)) ''career_roadmap'')
   \<and> field (fst (analyze_resume idle_lib (raising ''quota'') long_text)) ''project_recommendations'' = Some (PList [])
   \<and> field (fst (analyze_resume idle_lib (raising ''quota'') long_text)) ''recommended_courses'' = Some (PList [])
   \<and> \<not> key_missing (broken_model ''boom'')
   \<and> model_error (broken_model ''boom'') = Some ''boom''
   \<and> nonempty_text (field (fst (analyze_resume idle_lib (broken_model ''boom'') long_text)) ''career_roadmap'')
   \<and> field (fst (analyze_resume idle_lib (broken_model ''boom'') long_text)) ''strengths'' = Some (PList [])
   \<and> field (fst (analyze_resume idle_lib (broken_model ''boom'') long_text)) ''areas_of_improvement'' = Some (PList [])
   \<and> field (fst (analyze_resume idle_lib (broken_model ''boom'') long_text)) ''project_recommendations'' = Some (PList [])
   \<and> field (fst (analyze_resume idle_lib (broken_model ''boom'') long_text)) ''recommended_courses'' = Some (PList [])
   \<and> \<not> key_missing (answering ''{"strengths": ["a"], "career_roadmap": ""}'')
   \<and> model_error (answering ''{"strengths": ["a"], "career_roadmap": ""}'') = None
   \<and> generate_content (answering ''{"strengths": ["a"], "career_roadmap": ""}'') (analysis_prompt long_text) = Inr ''{"strengths": ["a"], "career_roadmap": ""}''
   \<and> json_loads idle_lib (strict_candidate ''{"strengths": ["a"], "career_roadmap": ""}'')
        = Some (PDict [(''strengths'', PList [PStr ''a'']), (''career_roadmap'', PStr [])])
   \<and> nonempty_list (field (fst (analyze_resume idle_lib (answering ''{"strengths": ["a"], "career_roadmap": ""}'') long_text)) ''strengths'')
   \<and> \<not> nonempty_list (field (fst (analyze_resume idle_lib (answering ''{"strengths": ["a"], "career_roadmap": ""}'') long_text)) ''areas_of_improvement'')
   \<and> \<not> nonempty_text (field (fst (analyze_resume idle_lib (answering ''{"strengths": ["a"], "career_roadmap": ""}'') long_text)) ''career_roadmap'')\<close>
proof -
  let ?t = "''Strengths:\<newline>- Strong Python skills''"
  let ?r = "PDict
            [(''strengths'', PList [PStr ''Strong Python skills'']),
             (''areas_of_improvement'',
                PList [PStr ''Could not extract areas of improvement from analysis'']),
             (''project_recommendations'',
                PList [PStr ''Could not extract project recommendations from analysis'']),
             (''career_roadmap'', PStr ''Could not extract career roadmap from analysis''),
             (''recommended_courses'',
                PList [PStr ''Could not extract recommended courses from analysis'']),
             (''raw_analysis'', PStr ''Strengths:\<newline>- Strong Python skills'')]"
  let ?u = \<open>''{"strengths": ["a"], "career_roadmap": ""}''\<close>
  let ?d = "[(''strengths'', PList [PStr ''a'']), (''career_roadmap'', PStr [])]"
  have a1: "key_missing unconfigured"
    by (simp add: unconfigured_def key_missing_def)
  have b1: "\<not> key_missing (answering ?t)" and b2: "model_error (answering ?t) = None"
    and b3: "50 \<le> length long_text"
    and b4: "generate_content (answering ?t) (analysis_prompt long_text) = Inr ?t"
    by (simp_all add: answering_def key_missing_def long_text_def)
  have b5: "strict_parse idle_lib ?t = None" by code_simp
  have b6: "parse_gemini_response_analyzer ?t = Inr ?r" by code_simp
  have c1: "\<not> key_missing (answering ''{}'')" and c2: "model_error (answering ''{}'') = None"
    and c3: "length ''short'' < 50"
    by (simp_all add: answering_def key_missing_def)
  have d1: "\<not> key_missing (raising ''quota'')" and d2: "model_error (raising ''quota'') = None"
    and d3: "generate_content (raising ''quota'') (analysis_prompt long_text)
               = Inl (ProviderError ''quota'')"
    by (simp_all add: raising_def key_missing_def)
  have e1: "\<not> key_missing (broken_model ''boom'')"
    and e2: "model_error (broken_model ''boom'') = Some ''boom''"
    by (simp_all add: broken_model_def key_missing_def)
  have f1: "\<not> key_missing (answering ?u)" and f2: "model_error (answering ?u) = None"
    and f4: "generate_content (answering ?u) (analysis_prompt long_text) = Inr ?u"
    by (simp_all add: answering_def key_missing_def)
  have f5: "json_loads idle_lib (strict_candidate ?u) = Some (PDict ?d)" by code_simp
  have f6: "nonempty_list (dict_get ?d ''strengths'')"
    "\<not> nonempty_list (dict_get ?d ''areas_of_improvement'')"
    "dict_has ?d ''career_roadmap''" "\<not> nonempty_text (dict_get ?d ''career_roadmap'')"
    by (simp_all add: dict_get_def dict_has_def nonempty_list_def nonempty_text_def)
  note w1 = analyze_resume_fields_nonempty
    [where P = unconfigured and L = idle_lib and resume_text = long_text]
  note w2 = analyze_resume_fields_nonempty
    [where P = "answering ?t" and L = idle_lib and resume_text = long_text
       and response_text = ?t and r = ?r]
  note w3 = analyze_resume_fields_nonempty
    [where P = "answering ''{}''" and L = idle_lib and resume_text = "''short''"]
  note w4 = analyze_resume_fields_nonempty
    [where P = "raising ''quota''" and L = idle_lib and resume_text = long_text
       and e = "ProviderError ''quota''"]
  note w5 = analyze_resume_fields_nonempty
    [where P = "broken_model ''boom''" and L = idle_lib and resume_text = long_text
       and m = "''boom''"]
  note w6 = analyze_resume_fields_nonempty
    [where P = "answering ?u" and L = idle_lib and resume_text = long_text
       and u = ?u and d = ?d]
  show ?thesis
    using w1 w2 w3 w4 w5 w6 a1 b1 b2 b3 b4 b5 b6 c1 c2 c3 d1 d2 d3 e1 e2 f1 f2 f4 f5 f6
    by simp
qed

text \<open>
  C6. A short text does not always give the too-short message: \<^verbatim>\<open>analyze_resume\<close>
  constructs the model before it looks at the length, and when the construction raises
  it returns that error.
\<close>

theorem short_text_broken_model_counterexample:
  \<open>\<not> key_missing (broken_model ''boom'') \<and> length ''short'' < 50
   \<and> fst (analyze_resume idle_lib (broken_model ''boom'') ''short'')
       = error_result ''Failed to create Gemini model: boom'' [] [] []
           ''Error occurred during analysis setup'' []
   \<and> field (fst (analyze_resume idle_lib (broken_model ''boom'') ''short'')) ''error''
       \<noteq> Some (PStr resume_too_short)\<close>
  by code_simp

text \<open>
  C6, amended. With the key configured, \<^verbatim>\<open>analyze_resume\<close> on a text of fewer than 50
  characters never calls \<^verbatim>\<open>generate_content\<close>, and when the model has been constructed
  it returns the too-short result. \<^verbatim>\<open>compare_resume_jd\<close> checks the lengths before it
  constructs the model: when either text has fewer than 50 characters it returns the
  error response with the message for the resume, or else for the job description, and
  calls nothing.
\<close>

theorem short_text_short_circuits:
  "(\<not> key_missing P \<and> length resume_text < 50 \<longrightarrow>
      snd (analyze_resume L P resume_text) = []
      \<and> (model_error P = None \<longrightarrow>
           fst (analyze_resume L P resume_text)
             = error_result resume_too_short [''Unable to analyze - resume text too short'']
                 [''Provide a more complete resume''] []
                 ''Please provide a more detailed resume for analysis'' []))
   \<and> (\<not> key_missing P \<and> (length resume_text < 50 \<or> length jd_text < 50) \<longrightarrow>
      compare_resume_jd L P resume_text jd_text
        = (error_response (if length resume_text < 50 then resume_too_short else jd_too_short),
           []))"
  by (auto simp: analyze_resume_def compare_resume_jd_def split: option.split)

theorem short_text_short_circuits_witness:
  \<open>\<not> key_missing (answering ''{}'') \<and> length ''short'' < 50
   \<and> model_error (answering ''{}'') = None
   \<and> analyze_resume idle_lib (answering ''{}'') ''short''
       = (error_result resume_too_short [''Unable to analyze - resume text too short'']
            [''Provide a more complete resume''] []
            ''Please provide a more detailed resume for analysis'' [], [])
   \<and> compare_resume_jd idle_lib (answering ''{}'') long_text ''short''
       = (error_response jd_too_short, [])\<close>
proof -
  have h1: "\<not> key_missing (answering ''{}'')" and h2: "length ''short'' < 50"
    and h3: "model_error (answering ''{}'') = None" and h4: "\<not> length long_text < 50"
    by (simp_all add: answering_def key_missing_def long_text_def)
  show ?thesis
    using short_text_short_circuits [of "answering ''{}''" "''short''" idle_lib "''short''"]
      short_text_short_circuits [of "answering ''{}''" long_text idle_lib "''short''"]
      h1 h2 h3 h4
    by (simp add: prod_eq_iff)
qed

text \<open>
  C8. The result of a successful strict parse can have the key \<^verbatim>\<open>raw_analysis\<close>: the
  parsed mapping is returned with all its keys, also this one when the model sends it.
\<close>

theorem raw_analysis_from_model_counterexample:
  \<open>strict_parse idle_lib ''{"raw_analysis": "x"}''
     = Some (PDict [(''raw_analysis'', PStr ''x''),
                    (''strengths'', PList []),
                    (''areas_of_improvement'', PList []),
                    (''project_recommendations'', PList []),
                    (''career_roadmap'', PStr ''No information provided''),
                    (''recommended_courses'', PList [])])
   \<and> field (fst (analyze_resume idle_lib (answering ''{"raw_analysis": "x"}'') long_text))
        ''raw_analysis'' = Some (PStr ''x'')\<close>
  by code_simp

text \<open>
  C8, amended. When the strict parse fails and the heuristic fallback returns, the result
  has \<^verbatim>\<open>raw_analysis\<close> with the raw response text. When the strict parse decodes a JSON
  object, the result has \<^verbatim>\<open>raw_analysis\<close> exactly when that object has it, with the
  value of the object.
\<close>

theorem raw_analysis_presence:
  assumes "\<not> key_missing P" and "model_error P = None" and "50 \<le> length resume_text"
    and "generate_content P (analysis_prompt resume_text) = Inr response_text"
  shows "(strict_parse L response_text = None
           \<and> parse_gemini_response_analyzer response_text = Inr r
          \<longrightarrow> field (fst (analyze_resume L P resume_text)) ''raw_analysis''
                = Some (PStr response_text))
       \<and> (json_loads L (strict_candidate response_text) = Some (PDict d)
          \<longrightarrow> field (fst (analyze_resume L P resume_text)) ''raw_analysis''
                = dict_get d ''raw_analysis'')"
proof (intro conjI impI)
  assume "strict_parse L response_text = None
           \<and> parse_gemini_response_analyzer response_text = Inr r"
  then show "field (fst (analyze_resume L P resume_text)) ''raw_analysis''
                = Some (PStr response_text)"
    using fallback_fields(6) [of response_text r]
    by (simp add: analyze_resume_answered [OF assms])
next
  assume "json_loads L (strict_candidate response_text) = Some (PDict d)"
  then have "field (fst (analyze_resume L P resume_text)) ''raw_analysis''
      = (case dict_get d ''raw_analysis'' of
           Some v \<Rightarrow> Some v
         | None \<Rightarrow> if ''raw_analysis'' \<in> set required_fields
                   then Some (field_default ''raw_analysis'') else None)"
    by (simp add: analyze_resume_answered [OF assms] strict_parse_dict field_backfilled)
  moreover have "''raw_analysis'' \<notin> set required_fields"
    by (simp add: required_fields_def)
  ultimately show "field (fst (analyze_resume L P resume_text)) ''raw_analysis''
                = dict_get d ''raw_analysis''"
    by (simp split: option.split)
qed

theorem raw_analysis_presence_witness:
  \<open>\<not> key_missing (answering ''Strengths:\<newline>- Strong Python skills'')
   \<and> model_error (answering ''Strengths:\<newline>- Strong Python skills'') = None
   \<and> 50 \<le> length long_text
   \<and> generate_content (answering ''Strengths:\<newline>- Strong Python skills'')
        (analysis_prompt long_text) = Inr ''Strengths:\<newline>- Strong Python skills''
   \<and> strict_parse idle_lib ''Strengths:\<newline>- Strong Python skills'' = None
   \<and> parse_gemini_response_analyzer ''Strengths:\<newline>- Strong Python skills''
        = Inr (PDict
            [(''strengths'', PList [PStr ''Strong Python skills'']),
             (''areas_of_improvement'',
                PList [PStr ''Could not extract areas of improvement from analysis'']),
             (''project_recommendations'',
                PList [PStr ''Could not extract project recommendations from analysis'']),
             (''career_roadmap'', PStr ''Could not extract career roadmap from analysis''),
             (''recommended_courses'',
                PList [PStr ''Could not extract recommended courses from analysis'']),
             (''raw_analysis'', PStr ''Strengths:\<newline>- Strong Python skills'')])
   \<and> field (fst (analyze_resume idle_lib
        (answering ''Strengths:\<newline>- Strong Python skills'') long_text)) ''raw_analysis''
        = Some (PStr ''Strengths:\<newline>- Strong Python skills'')
   \<and> \<not> key_missing (answering ''{"strengths": ["a"]}'')
   \<and> model_error (answering ''{"strengths": ["a"]}'') = None
   \<and> generate_content (answering ''{"strengths": ["a"]}'') (analysis_prompt long_text)
        = Inr ''{"strengths": ["a"]}''
   \<and> json_loads idle_lib (strict_candidate ''{"strengths": ["a"]}'')
        = Some (PDict [(''strengths'', PList [PStr ''a''])])
   \<and> field (fst (analyze_resume idle_lib (answering ''{"strengths": ["a"]}'') long_text))
        ''raw_analysis'' = None\<close>
proof -
  let ?t = "''Strengths:\<newline>- Strong Python skills''"
  let ?r = "PDict
            [(''strengths'', PList [PStr ''Strong Python skills'']),
             (''areas_of_improvement'',
                PList [PStr ''Could not extract areas of improvement from analysis'']),
             (''project_recommendations'',
                PList [PStr ''Could not extract project recommendations from analysis'']),
             (''career_roadmap'', PStr ''Could not extract career roadmap from analysis''),
             (''recommended_courses'',
                PList [PStr ''Could not extract recommended courses from analysis'']),
             (''raw_analysis'', PStr ?t)]"
  let ?u = \<open>''{"strengths": ["a"]}''\<close>
  have h1: "\<not> key_missing (answering ?t)" and h2: "model_error (answering ?t) = None"
    and h3: "50 \<le> length long_text"
    and h4: "generate_content (answering ?t) (analysis_prompt long_text) = Inr ?t"
    by (simp_all add: answering_def key_missing_def long_text_def)
  have h5: "strict_parse idle_lib ?t = None" by code_simp
  have h6: "parse_gemini_response_analyzer ?t = Inr ?r" by code_simp
  have g1: "\<not> key_missing (answering ?u)" and g2: "model_error (answering ?u) = None"
    and g4: "generate_content (answering ?u) (analysis_prompt long_text) = Inr ?u"
    by (simp_all add: answering_def key_missing_def)
  have g5: "json_loads idle_lib (strict_candidate ?u)
              = Some (PDict [(''strengths'', PList [PStr ''a''])])" by code_simp
  have g6: "dict_get [(''strengths'', PList [PStr ''a''])] ''raw_analysis'' = None"
    by (simp add: dict_get_def)
  show ?thesis
    using raw_analysis_presence [OF h1 h2 h3 h4, of idle_lib ?r]
      raw_analysis_presence [OF g1 g2 h3 g4, of idle_lib _ "[(''strengths'', PList [PStr ''a''])]"]
      h1 h2 h3 h4 h5 h6 g1 g2 g4 g5 g6
    by simp
qed

text \<open>
  C10. When the strict parse decodes a JSON object, \<^verbatim>\<open>analyze_resume\<close> returns that
  object with its entries as they are and in their order, followed by the required fields
  it lacks, each with its default: the empty list, or \<open>No information provided\<close> for
  \<^verbatim>\<open>career_roadmap\<close>. So every key of the object keeps its value, whatever it is.
\<close>

theorem strict_parse_backfills_only:
  assumes "\<not> key_missing P" and "model_error P = None" and "50 \<le> length resume_text"
    and "generate_content P (analysis_prompt resume_text) = Inr response_text"
    and "json_loads L (strict_candidate response_text) = Some (PDict d)"
  shows "fst (analyze_resume L P resume_text)
           = PDict (d @ map (\<lambda>f. (f, field_default f))
                          (filter (\<lambda>f. \<not> dict_has d f) required_fields))
       \<and> (dict_has d k \<longrightarrow> field (fst (analyze_resume L P resume_text)) k = dict_get d k)
       \<and> (\<not> dict_has d k \<and> k \<in> set required_fields \<longrightarrow>
            field (fst (analyze_resume L P resume_text)) k
              = Some (if k \<noteq> ''career_roadmap'' then PList []
                      else PStr ''No information provided''))
       \<and> (\<not> dict_has d k \<and> k \<notin> set required_fields \<longrightarrow>
            field (fst (analyze_resume L P resume_text)) k = None)"
proof -
  have r: "fst (analyze_resume L P resume_text)
           = PDict (d @ map (\<lambda>f. (f, field_default f))
                          (filter (\<lambda>f. \<not> dict_has d f) required_fields))"
    by (simp add: analyze_resume_answered [OF assms(1-4)] strict_parse_dict [OF assms(5)])
  have f: "field (fst (analyze_resume L P resume_text)) k
      = (case dict_get d k of
           Some v \<Rightarrow> Some v
         | None \<Rightarrow> if k \<in> set required_fields then Some (field_default k) else None)"
    by (simp add: r field_backfilled)
  show ?thesis
  proof (intro conjI impI)
    show "fst (analyze_resume L P resume_text)
           = PDict (d @ map (\<lambda>f. (f, field_default f))
                          (filter (\<lambda>f. \<not> dict_has d f) required_fields))"
      by (rule r)
  next
    assume "dict_has d k"
    then show "field (fst (analyze_resume L P resume_text)) k = dict_get d k"
      by (auto simp: f dict_has_def)
  next
    assume "\<not> dict_has d k \<and> k \<in> set required_fields"
    then show "field (fst (analyze_resume L P resume_text)) k
              = Some (if k \<noteq> ''career_roadmap'' then PList []
                      else PStr ''No information provided'')"
      by (simp add: f dict_has_def field_default_def)
  next
    assume "\<not> dict_has d k \<and> k \<notin> set required_fields"
    then show "field (fst (analyze_resume L P resume_text)) k = None"
      by (simp add: f dict_has_def)
  qed
qed

theorem strict_parse_backfills_only_witness:
  \<open>\<not> key_missing (answering ''Result: {"strengths": ["a", 5], "score": 140} done'')
   \<and> model_error (answering ''Result: {"strengths": ["a", 5], "score": 140} done'') = None
   \<and> 50 \<le> length long_text
   \<and> generate_content (answering ''Result: {"strengths": ["a", 5], "score": 140} done'')
        (analysis_prompt long_text) = Inr ''Result: {"strengths": ["a", 5], "score": 140} done''
   \<and> json_loads idle_lib (strict_candidate ''Result: {"strengths": ["a", 5], "score": 140} done'')
        = Some (PDict [(''strengths'', PList [PStr ''a'', PInt 5]), (''score'', PInt 140)])
   \<and> fst (analyze_resume idle_lib
        (answering ''Result: {"strengths": ["a", 5], "score": 140} done'') long_text)
        = PDict [(''strengths'', PList [PStr ''a'', PInt 5]),
                 (''score'', PInt 140),
                 (''areas_of_improvement'', PList []),
                 (''project_recommendations'', PList []),
                 (''career_roadmap'', PStr ''No information provided''),
                 (''recommended_courses'', PList [])]
   \<and> dict_has [(''strengths'', PList [PStr ''a'', PInt 5]), (''score'', PInt 140)] ''score''
   \<and> field (fst (analyze_resume idle_lib
        (answering ''Result: {"strengths": ["a", 5], "score": 140} done'') long_text)) ''score''
        = Some (PInt 140)
   \<and> \<not> dict_has [(''strengths'', PList [PStr ''a'', PInt 5]), (''score'', PInt 140)]
          ''career_roadmap''
   \<and> ''career_roadmap'' \<in> set required_fields
   \<and> field (fst (analyze_resume idle_lib
        (answering ''Result: {"strengths": ["a", 5], "score": 140} done'') long_text))
        ''career_roadmap'' = Some (PStr ''No information provided'')
   \<and> \<not> dict_has [(''strengths'', PList [PStr ''a'', PInt 5]), (''score'', PInt 140)]
          ''raw_analysis''
   \<and> ''raw_analysis'' \<notin> set required_fields
   \<and> field (fst (analyze_resume idle_lib
        (answering ''Result: {"strengths": ["a", 5], "score": 140} done'') long_text))
        ''raw_analysis'' = None\<close>
proof -
  let ?t = \<open>''Result: {"strengths": ["a", 5], "score": 140} done''\<close>
  let ?d = "[(''strengths'', PList [PStr ''a'', PInt 5]), (''score'', PInt 140)]"
  have h1: "\<not> key_missing (answering ?t)" and h2: "model_error (answering ?t) = None"
    and h3: "50 \<le> length long_text"
    and h4: "generate_content (answering ?t) (analysis_prompt long_text) = Inr ?t"
    by (simp_all add: answering_def key_missing_def long_text_def)
  have h5: "json_loads idle_lib (strict_candidate ?t) = Some (PDict ?d)" by code_simp
  have fill: "?d @ map (\<lambda>f. (f, field_default f)) (filter (\<lambda>f. \<not> dict_has ?d f) required_fields)
      = [(''strengths'', PList [PStr ''a'', PInt 5]),
                 (''score'', PInt 140),
                 (''areas_of_improvement'', PList []),
                 (''project_recommendations'', PList []),
                 (''career_roadmap'', PStr ''No information provided''),
                 (''recommended_courses'', PList [])]"
    by (simp add: required_fields_def dict_has_def dict_get_def field_default_def)
  have k1: "dict_has ?d ''score''" and k2: "\<not> dict_has ?d ''career_roadmap''"
    and k3: "''career_roadmap'' \<in> set required_fields"
    and k4: "\<not> dict_has ?d ''raw_analysis''"
    and k5: "''raw_analysis'' \<notin> set required_fields"
    and k6: "dict_get ?d ''score'' = Some (PInt 140)"
    by (simp_all add: dict_has_def dict_get_def required_fields_def)
  show ?thesis
    using strict_parse_backfills_only [OF h1 h2 h3 h4 h5, of "''score''"]
      strict_parse_backfills_only [OF h1 h2 h3 h4 h5, of "''career_roadmap''"]
      strict_parse_backfills_only [OF h1 h2 h3 h4 h5, of "''raw_analysis''"]
      h1 h2 h3 h4 h5 fill k1 k2 k3 k4 k5 k6
    by (simp add: field_def dict_get_def)
qed

end
